theory Spec2Isabelle
  imports Complex_Main
begin

section \<open>Python values and exceptions\<close>

text \<open>
  The notebooks are linear Python scripts. An exception is a value of \<open>exn\<close>; a
  computation that may raise returns \<open>exn + 'a\<close> with \<open>Inl\<close> for the raise.
  A \<open>ClientError\<close> carries \<open>error.response["Error"]["Code"]\<close> and
  \<open>error.response["Error"]["Message"]\<close>.
\<close>

datatype exn =
    ClientError string string
  | AttributeError
  | TypeError
  | KeyError string
  | NameError string
  | ValueError
  | IndexError
  | JSONDecodeError
  | UnicodeDecodeError
  | FileNotFoundError
  | IsADirectoryError
  | OtherError string

section \<open>String methods used by the notebooks\<close>

text \<open>\<open>str.startswith\<close> and \<open>str.endswith\<close>.\<close>

definition startswith :: "string \<Rightarrow> string \<Rightarrow> bool" where
  "startswith s pre = (take (length pre) s = pre)"

definition endswith :: "string \<Rightarrow> string \<Rightarrow> bool" where
  "endswith s suf = (length suf \<le> length s \<and> drop (length s - length suf) s = suf)"

text \<open>
  \<open>str.removeprefix\<close> and \<open>str.removesuffix\<close> (Python 3.9): the affix is cut off
  when the string has it, and the string is returned unchanged otherwise.
\<close>

definition removeprefix :: "string \<Rightarrow> string \<Rightarrow> string" where
  "removeprefix s pre = (if startswith s pre then drop (length pre) s else s)"

definition removesuffix :: "string \<Rightarrow> string \<Rightarrow> string" where
  "removesuffix s suf =
     (if suf \<noteq> [] \<and> endswith s suf then take (length s - length suf) s else s)"

text \<open>\<open>str.find\<close>: the lowest index at which the separator occurs, if any.\<close>

fun str_find :: "string \<Rightarrow> string \<Rightarrow> nat option" where
  "str_find [] sep = (if sep = [] then Some 0 else None)"
| "str_find (c # cs) sep =
     (if startswith (c # cs) sep then Some 0 else map_option Suc (str_find cs sep))"

text \<open>
  \<open>s.split(sep, maxsplit)\<close> for a non-negative \<open>maxsplit\<close>: at most \<open>maxsplit\<close>
  cuts, made at the leftmost occurrences of the separator; an empty separator raises
  \<open>ValueError\<close>.
\<close>

fun split_loop :: "string \<Rightarrow> string \<Rightarrow> nat \<Rightarrow> string list" where
  "split_loop s sep 0 = [s]"
| "split_loop s sep (Suc n) =
     (case str_find s sep of
        None \<Rightarrow> [s]
      | Some i \<Rightarrow> take i s # split_loop (drop (i + length sep) s) sep n)"

definition str_split :: "string \<Rightarrow> string \<Rightarrow> nat \<Rightarrow> exn + string list" where
  "str_split s sep maxsplit = (if sep = [] then Inl ValueError else Inr (split_loop s sep maxsplit))"

text \<open>List indexing with a non-negative index: out of range raises \<open>IndexError\<close>.\<close>

definition index :: "'a list \<Rightarrow> nat \<Rightarrow> exn + 'a" where
  "index xs i = (if i < length xs then Inr (xs ! i) else Inl IndexError)"

section \<open>Output file names (notebook 01)\<close>

text \<open>
  \<^verbatim>\<open>output_filename = base_filename.removesuffix(".pdf") + "_textract.txt"\<close> in the
  Textract loop, and the same with \<^verbatim>\<open>"_bedrock.txt"\<close> in the Bedrock export cell.
\<close>

definition textract_output_filename :: "string \<Rightarrow> string" where
  "textract_output_filename base_filename = removesuffix base_filename ''.pdf'' @ ''_textract.txt''"

definition bedrock_output_filename :: "string \<Rightarrow> string" where
  "bedrock_output_filename base_filename = removesuffix base_filename ''.pdf'' @ ''_bedrock.txt''"

section \<open>S3 URIs (notebook 03)\<close>

text \<open>
  The URI handed to the data-automation job is the f-string
  \<^verbatim>\<open>f"s3://{s3_bucket}/{s3_file_key}"\<close>; the URIs that come back are taken apart by
  \<^verbatim>\<open>uri.removeprefix("s3://").split("/", 1)\<close>, and the two parts are read with
  \<^verbatim>\<open>s3_uri_parts[0]\<close> and \<^verbatim>\<open>s3_uri_parts[1]\<close>.
\<close>

definition format_s3_uri :: "string \<Rightarrow> string \<Rightarrow> string" where
  "format_s3_uri s3_bucket s3_file_key = ''s3://'' @ s3_bucket @ ''/'' @ s3_file_key"

definition s3_uri_parts :: "string \<Rightarrow> exn + string list" where
  "s3_uri_parts uri = str_split (removeprefix uri ''s3://'') ''/'' 1"

definition get_object_args :: "string \<Rightarrow> exn + (string \<times> string)" where
  "get_object_args uri =
     (case s3_uri_parts uri of
        Inl e \<Rightarrow> Inl e
      | Inr parts \<Rightarrow>
          (case index parts 0 of
             Inl e \<Rightarrow> Inl e
           | Inr bucket \<Rightarrow>
               (case index parts 1 of
                  Inl e \<Rightarrow> Inl e
                | Inr key \<Rightarrow> Inr (bucket, key))))"

section \<open>JSON values and the Python operations applied to them\<close>

text \<open>
  What \<^verbatim>\<open>json.loads\<close> returns and what \<^verbatim>\<open>json.dumps\<close> takes: \<open>JNull\<close> is
  Python's \<open>None\<close>, \<open>JObj\<close> a \<open>dict\<close> with string keys (an association list
  in insertion order, read with \<open>map_of\<close>), \<open>JArr\<close> a \<open>list\<close>.
\<close>

datatype json =
    JNull
  | JBool bool
  | JInt int
  | JFloat rat
  | JStr string
  | JArr "json list"
  | JObj "(string \<times> json) list"

text \<open>Truth value testing, as \<^verbatim>\<open>if x:\<close> and \<^verbatim>\<open>not x\<close> do it.\<close>

fun truthy :: "json \<Rightarrow> bool" where
  "truthy JNull = False"
| "truthy (JBool b) = b"
| "truthy (JInt n) = (n \<noteq> 0)"
| "truthy (JFloat x) = (x \<noteq> 0)"
| "truthy (JStr s) = (s \<noteq> [])"
| "truthy (JArr xs) = (xs \<noteq> [])"
| "truthy (JObj kvs) = (kvs \<noteq> [])"

text \<open>
  \<^verbatim>\<open>key in x\<close> for a string key: a key of a dict, an element of a list, a substring
  of a string; the other values are not containers and raise \<open>TypeError\<close>.
\<close>

fun contains :: "json \<Rightarrow> string \<Rightarrow> exn + bool" where
  "contains (JObj kvs) k = Inr (k \<in> set (map fst kvs))"
| "contains (JArr xs) k = Inr (JStr k \<in> set xs)"
| "contains (JStr s) k = Inr (str_find s k \<noteq> None)"
| "contains JNull k = Inl TypeError"
| "contains (JBool b) k = Inl TypeError"
| "contains (JInt n) k = Inl TypeError"
| "contains (JFloat x) k = Inl TypeError"

text \<open>\<^verbatim>\<open>x.get(key, None)\<close>: only a dict has the method.\<close>

fun dict_get :: "json \<Rightarrow> string \<Rightarrow> exn + json" where
  "dict_get (JObj kvs) k = Inr (case map_of kvs k of None \<Rightarrow> JNull | Some v \<Rightarrow> v)"
| "dict_get (JArr xs) k = Inl AttributeError"
| "dict_get (JStr s) k = Inl AttributeError"
| "dict_get JNull k = Inl AttributeError"
| "dict_get (JBool b) k = Inl AttributeError"
| "dict_get (JInt n) k = Inl AttributeError"
| "dict_get (JFloat x) k = Inl AttributeError"

subsection \<open>A reader for JSON text\<close>

text \<open>Python's \<open>bytes\<close>: a \<open>char\<close> is one byte.\<close>

type_synonym bytes = string

text \<open>
  An instance of \<^verbatim>\<open>json.loads\<close> on 7-bit input, for running the notebooks' loops on
  concrete payloads: objects, arrays, strings with the two-character escapes, numbers
  without exponent and the three literals, after RFC 8259. It agrees with Python on
  this fragment only: for a number with an exponent, a \<^verbatim>\<open>\u\<close> escape, a byte above
  127 or one of the literals \<^verbatim>\<open>NaN\<close>, \<^verbatim>\<open>Infinity\<close> and \<^verbatim>\<open>-Infinity\<close> it answers
  \<open>JSONDecodeError\<close> where Python returns a value, and a float is the decimal as
  written, not its nearest double. It is applied below to payloads of the fragment
  only, and no general statement depends on it: those hold for every \<open>loads\<close>.
\<close>

definition is_ws :: "char \<Rightarrow> bool" where
  "is_ws c = (c = CHR '' '' \<or> c = CHR 0x09 \<or> c = CHR 0x0A \<or> c = CHR 0x0D)"

definition skip_ws :: "string \<Rightarrow> string" where
  "skip_ws s = dropWhile is_ws s"

definition is_digit :: "char \<Rightarrow> bool" where
  "is_digit c = ((48::nat) \<le> of_char c \<and> of_char c \<le> (57::nat))"

definition digit_val :: "char \<Rightarrow> nat" where
  "digit_val c = of_char c - 48"

definition unescape :: "char \<Rightarrow> char option" where
  "unescape e =
     (if e = CHR 0x22 then Some (CHR 0x22)
      else if e = CHR 0x5C then Some (CHR 0x5C)
      else if e = CHR ''/'' then Some (CHR ''/'')
      else if e = CHR ''b'' then Some (CHR 0x08)
      else if e = CHR ''f'' then Some (CHR 0x0C)
      else if e = CHR ''n'' then Some (CHR 0x0A)
      else if e = CHR ''r'' then Some (CHR 0x0D)
      else if e = CHR ''t'' then Some (CHR 0x09)
      else None)"

text \<open>The rest of a string after its opening quote: its characters, and what follows it.\<close>

fun read_string :: "string \<Rightarrow> (string \<times> string) option" where
  "read_string [] = None"
| "read_string [c] = (if c = CHR 0x22 then Some ([], []) else None)"
| "read_string (c # d # cs) =
     (if c = CHR 0x22 then Some ([], d # cs)
      else if c = CHR 0x5C then
        (case unescape d of
           None \<Rightarrow> None
         | Some x \<Rightarrow> map_option (apfst ((#) x)) (read_string cs))
      else if (of_char c :: nat) < 32 \<or> (128::nat) \<le> of_char c then None
      else map_option (apfst ((#) c)) (read_string (d # cs)))"

definition digits_val :: "string \<Rightarrow> nat" where
  "digits_val ds = foldl (\<lambda>a d. 10 * a + digit_val d) 0 ds"

text \<open>
  A number: an optional minus sign, digits without a leading zero, and an optional
  fraction, which makes it a float (read as the decimal it is written as).
\<close>

definition read_number :: "string \<Rightarrow> (json \<times> string) option" where
  "read_number s =
     (let neg = (s \<noteq> [] \<and> hd s = CHR ''-'');
          s1 = (if neg then tl s else s);
          ds = takeWhile is_digit s1;
          rest = dropWhile is_digit s1;
          sign = (if neg then - 1 else 1)
      in if ds = [] \<or> (1 < length ds \<and> hd ds = CHR ''0'') then None
         else if rest \<noteq> [] \<and> hd rest = CHR ''.'' then
           (let frac = takeWhile is_digit (tl rest);
                rest' = dropWhile is_digit (tl rest)
            in if frac = [] \<or> (rest' \<noteq> [] \<and> hd rest' \<in> set ''eE'') then None
               else Some (JFloat (of_int sign
                            * (of_nat (digits_val ds)
                               + of_nat (digits_val frac) / 10 ^ length frac)),
                          rest'))
         else if rest \<noteq> [] \<and> hd rest \<in> set ''eE'' then None
         else Some (JInt (sign * int (digits_val ds)), rest))"

text \<open>\<^verbatim>\<open>d[k] = v\<close>: a key already present keeps its place and takes the new value.\<close>

fun dict_set :: "(string \<times> json) list \<Rightarrow> string \<Rightarrow> json \<Rightarrow> (string \<times> json) list" where
  "dict_set [] k v = [(k, v)]"
| "dict_set (p # ps) k v = (if fst p = k then (k, v) # ps else p # dict_set ps k v)"

text \<open>
  The first argument bounds the number of nested calls; \<open>json_loads\<close> passes twice
  the length of its input and two more.
\<close>

fun read_value :: "nat \<Rightarrow> string \<Rightarrow> (json \<times> string) option"
  and read_elements :: "nat \<Rightarrow> json list \<Rightarrow> string \<Rightarrow> (json \<times> string) option"
  and read_members :: "nat \<Rightarrow> (string \<times> json) list \<Rightarrow> string \<Rightarrow> (json \<times> string) option"
where
  "read_value 0 s = None"
| "read_value (Suc n) s =
     (case s of
        [] \<Rightarrow> None
      | c # cs \<Rightarrow>
          if c = CHR ''{'' then
            (if skip_ws cs \<noteq> [] \<and> hd (skip_ws cs) = CHR ''}''
             then Some (JObj [], tl (skip_ws cs))
             else read_members n [] (skip_ws cs))
          else if c = CHR ''['' then
            (if skip_ws cs \<noteq> [] \<and> hd (skip_ws cs) = CHR '']''
             then Some (JArr [], tl (skip_ws cs))
             else read_elements n [] (skip_ws cs))
          else if c = CHR 0x22 then map_option (apfst JStr) (read_string cs)
          else if startswith s ''null'' then Some (JNull, drop 4 s)
          else if startswith s ''true'' then Some (JBool True, drop 4 s)
          else if startswith s ''false'' then Some (JBool False, drop 5 s)
          else read_number s)"
| "read_elements 0 acc s = None"
| "read_elements (Suc n) acc s =
     (case read_value n s of
        None \<Rightarrow> None
      | Some (v, r) \<Rightarrow>
          (case skip_ws r of
             [] \<Rightarrow> None
           | c # r' \<Rightarrow>
               if c = CHR '','' then read_elements n (acc @ [v]) (skip_ws r')
               else if c = CHR '']'' then Some (JArr (acc @ [v]), r')
               else None))"
| "read_members 0 acc s = None"
| "read_members (Suc n) acc s =
     (case s of
        [] \<Rightarrow> None
      | q # s1 \<Rightarrow>
          if q \<noteq> CHR 0x22 then None
          else
            (case read_string s1 of
               None \<Rightarrow> None
             | Some (k, s2) \<Rightarrow>
                 (case skip_ws s2 of
                    [] \<Rightarrow> None
                  | colon # s3 \<Rightarrow>
                      if colon \<noteq> CHR '':'' then None
                      else
                        (case read_value n (skip_ws s3) of
                           None \<Rightarrow> None
                         | Some (v, r) \<Rightarrow>
                             (case skip_ws r of
                                [] \<Rightarrow> None
                              | c # r' \<Rightarrow>
                                  if c = CHR '','' then read_members n (dict_set acc k v) (skip_ws r')
                                  else if c = CHR ''}'' then Some (JObj (dict_set acc k v), r')
                                  else None)))))"

definition json_loads :: "bytes \<Rightarrow> exn + json" where
  "json_loads b =
     (case read_value (2 * length b + 2) (skip_ws b) of
        None \<Rightarrow> Inl JSONDecodeError
      | Some (v, r) \<Rightarrow> if skip_ws r = [] then Inr v else Inl JSONDecodeError)"

subsection \<open>A writer for JSON text\<close>

text \<open>
  An instance of \<^verbatim>\<open>json.dumps\<close> with its default settings (separators \<^verbatim>\<open>", "\<close> and
  \<^verbatim>\<open>": "\<close>, \<^verbatim>\<open>ensure_ascii\<close>), for showing concrete request bodies. A float that is
  a whole number prints as \<^verbatim>\<open>n.0\<close>, which covers the only float of the notebooks,
  \<^verbatim>\<open>0.0\<close>; any other float is beyond this instance and prints as a question mark. The
  theorems below do not depend on it: they hold for every \<open>dumps\<close>.
\<close>

fun show_nat :: "nat \<Rightarrow> string" where
  "show_nat n =
     (if n < 10 then [char_of (48 + n)]
      else show_nat (n div 10) @ [char_of (48 + n mod 10)])"

definition show_int :: "int \<Rightarrow> string" where
  "show_int i = (if i < 0 then CHR ''-'' # show_nat (nat (- i)) else show_nat (nat i))"

definition hex_digit :: "nat \<Rightarrow> char" where
  "hex_digit n = (if n < 10 then char_of (48 + n) else char_of (87 + n))"

definition escape_char :: "char \<Rightarrow> string" where
  "escape_char c =
     (if c = CHR 0x22 then [CHR 0x5C, CHR 0x22]
      else if c = CHR 0x5C then [CHR 0x5C, CHR 0x5C]
      else if c = CHR 0x0A then [CHR 0x5C, CHR ''n'']
      else if c = CHR 0x0D then [CHR 0x5C, CHR ''r'']
      else if c = CHR 0x09 then [CHR 0x5C, CHR ''t'']
      else if c = CHR 0x08 then [CHR 0x5C, CHR ''b'']
      else if c = CHR 0x0C then [CHR 0x5C, CHR ''f'']
      else if (of_char c :: nat) < 32 \<or> (126::nat) < of_char c then
        [CHR 0x5C, CHR ''u'', CHR ''0'', CHR ''0'',
         hex_digit (of_char c div 16), hex_digit (of_char c mod 16)]
      else [c])"

definition quote :: "string \<Rightarrow> string" where
  "quote s = CHR 0x22 # concat (map escape_char s) @ [CHR 0x22]"

fun join :: "string \<Rightarrow> string list \<Rightarrow> string" where
  "join sep [] = []"
| "join sep [x] = x"
| "join sep (x # y # ys) = x @ sep @ join sep (y # ys)"

primrec json_dumps :: "json \<Rightarrow> string" where
  "json_dumps JNull = ''null''"
| "json_dumps (JBool b) = (if b then ''true'' else ''false'')"
| "json_dumps (JInt i) = show_int i"
| "json_dumps (JFloat x) = (if x = of_int \<lfloor>x\<rfloor> then show_int \<lfloor>x\<rfloor> @ ''.0'' else ''?'')"
| "json_dumps (JStr s) = quote s"
| "json_dumps (JArr xs) = ''['' @ join '', '' (map json_dumps xs) @ '']''"
| "json_dumps (JObj kvs) =
     ''{'' @ join '', '' (map (\<lambda>(k, s). quote k @ '': '' @ s) (map (map_prod id json_dumps) kvs)) @ ''}''"

section \<open>The world a notebook runs in\<close>

record request =
  body :: string
  modelId :: string
  accept :: string
  contentType :: string

text \<open>
  An event of the response stream is a dict; the loop reads its \<^verbatim>\<open>"chunk"\<close> entry, a
  dict whose \<^verbatim>\<open>"bytes"\<close> entry holds the payload. Iterating the stream yields its
  events in order and then ends, or raises (\<open>failure\<close>).
\<close>

type_synonym chunk = "(string \<times> bytes) list"
type_synonym event = "(string \<times> chunk) list"

datatype stream = Stream (events: "event list") (failure: "exn option")

text \<open>\<open>response_body\<close> is \<^verbatim>\<open>response.get("body")\<close>.\<close>

datatype response = Response (response_body: "stream option")

text \<open>
  What a notebook does to the outside, in the order it does it: text written to the
  standard output, files written, calls of the model-invocation method of the SDK.
\<close>

datatype effect =
    Print string
  | WriteFile string string
  | InvokeModel request

record filesystem =
  dirs :: "string list"
  files :: "(string \<times> string) list"

text \<open>
  \<open>output_var\<close> and \<open>json_file\<close> are the notebook variables \<^verbatim>\<open>output\<close> (a string,
  notebooks 01 and 02) and \<^verbatim>\<open>json_file\<close>; \<open>output_list\<close> is the variable
  \<^verbatim>\<open>output\<close> of notebook 00, a list. \<open>None\<close> while a variable is unbound.
\<close>

record world =
  trace :: "effect list"
  fs :: filesystem
  output_var :: "string option"
  output_list :: "json list option"
  json_file :: "json option"

text \<open>\<^verbatim>\<open>print(s)\<close> and \<^verbatim>\<open>print(s, end="")\<close>.\<close>

definition newline :: string where
  "newline = [CHR 0x0A]"

definition py_print :: "string \<Rightarrow> world \<Rightarrow> world" where
  "py_print s w = w\<lparr>trace := trace w @ [Print (s @ newline)]\<rparr>"

definition py_print_end :: "string \<Rightarrow> world \<Rightarrow> world" where
  "py_print_end s w = w\<lparr>trace := trace w @ [Print s]\<rparr>"

section \<open>The streamed-response loop (notebooks 01 and 02)\<close>

text \<open>
  \<^verbatim>\<open>json.loads(chunk.get("bytes").decode())\<close>: \<open>chunk.get("bytes")\<close> is \<open>None\<close>
  when the entry is missing, and \<open>None\<close> has no \<open>decode\<close>. The parameter \<open>loads\<close>
  stands for decoding and parsing together; either may raise.
\<close>

definition loads_chunk :: "(bytes \<Rightarrow> exn + json) \<Rightarrow> chunk \<Rightarrow> exn + json" where
  "loads_chunk loads chunk =
     (case map_of chunk ''bytes'' of
        None \<Rightarrow> Inl AttributeError
      | Some b \<Rightarrow> loads b)"

text \<open>
  \<^verbatim>\<open>output += text; print(text, end="")\<close>: a string is appended; any other value
  cannot be concatenated to a string.
\<close>

definition append_text :: "json \<Rightarrow> world \<Rightarrow> exn + world" where
  "append_text t w =
     (case output_var w of
        None \<Rightarrow> Inl (NameError ''output'')
      | Some out \<Rightarrow>
          (case t of
             JStr s \<Rightarrow> Inr (py_print_end s (w\<lparr>output_var := Some (out @ s)\<rparr>))
           | _ \<Rightarrow> Inl TypeError))"

datatype step = Continue | Break

text \<open>The body of \<^verbatim>\<open>for event in stream:\<close>, for one event.\<close>

definition on_event :: "(bytes \<Rightarrow> exn + json) \<Rightarrow> event \<Rightarrow> world \<Rightarrow> exn + (step \<times> world)" where
  "on_event loads event w =
     (case map_of event ''chunk'' of
        None \<Rightarrow> Inr (Continue, w)
      | Some chunk \<Rightarrow>
          if chunk = [] then Inr (Continue, w)
          else
            (case loads_chunk loads chunk of
               Inl e \<Rightarrow> Inl e
             | Inr chunk_obj \<Rightarrow>
                 (case contains chunk_obj ''delta'' of
                    Inl e \<Rightarrow> Inl e
                  | Inr has_delta \<Rightarrow>
                      if \<not> has_delta then Inr (Continue, w)
                      else
                        (case dict_get chunk_obj ''delta'' of
                           Inl e \<Rightarrow> Inl e
                         | Inr delta_obj \<Rightarrow>
                             if \<not> truthy delta_obj then Inr (Continue, w)
                             else
                               (case dict_get delta_obj ''text'' of
                                  Inl e \<Rightarrow> Inl e
                                | Inr t \<Rightarrow>
                                    (case (if t \<noteq> JNull then append_text t w else Inr w) of
                                       Inl e \<Rightarrow> Inl e
                                     | Inr w' \<Rightarrow>
                                         Inr (if \<not> truthy t then Break else Continue, w')))))))"

text \<open>
  The loop: the events in order, until a \<^verbatim>\<open>break\<close>, an exception, or the end of the
  stream (where the iterator may raise).
\<close>

fun stream_loop ::
  "(bytes \<Rightarrow> exn + json) \<Rightarrow> event list \<Rightarrow> exn option \<Rightarrow> world \<Rightarrow> exn option \<times> world" where
  "stream_loop loads [] fail w = (fail, w)"
| "stream_loop loads (event # rest) fail w =
     (case on_event loads event w of
        Inl e \<Rightarrow> (Some e, w)
      | Inr (Break, w') \<Rightarrow> (None, w')
      | Inr (Continue, w') \<Rightarrow> stream_loop loads rest fail w')"

text \<open>
  \<^verbatim>\<open>output = ""; stream = response.get("body"); if stream: for event in stream: ...\<close>
\<close>

definition accumulate :: "(bytes \<Rightarrow> exn + json) \<Rightarrow> response \<Rightarrow> world \<Rightarrow> exn option \<times> world" where
  "accumulate loads response w =
     (let w1 = w\<lparr>output_var := Some []\<rparr> in
      case response_body response of
        None \<Rightarrow> (None, w1)
      | Some stream \<Rightarrow> stream_loop loads (events stream) (failure stream) w1)"

section \<open>The model-invocation cells\<close>

definition model_id :: string where
  "model_id = ''anthropic.claude-3-haiku-20240307-v1:0''"

text \<open>
  The dict serialised into the request body in notebooks 01 and 02; \<open>dumps\<close> stands
  for \<^verbatim>\<open>json.dumps\<close>.
\<close>

definition request_dict :: "string \<Rightarrow> json list \<Rightarrow> json" where
  "request_dict system_prompt messages =
     JObj [(''max_tokens'', JInt 4096),
           (''system'', JStr system_prompt),
           (''temperature'', JFloat 0),
           (''messages'', JArr messages),
           (''anthropic_version'', JStr ''bedrock-2023-05-31'')]"

definition invoke_request :: "(json \<Rightarrow> string) \<Rightarrow> json \<Rightarrow> request" where
  "invoke_request dumps d =
     \<lparr>body = dumps d, modelId = model_id,
      accept = ''application/json'', contentType = ''application/json''\<rparr>"














subsection \<open>The accumulated output, as the specification words it\<close>

text \<open>
  The delta object an event contributes: the event carries a non-empty chunk, the
  chunk's payload parses to an object, and the object's \<^verbatim>\<open>"delta"\<close> entry is truthy.
\<close>

definition delta_of :: "(bytes \<Rightarrow> exn + json) \<Rightarrow> event \<Rightarrow> json option" where
  "delta_of loads event =
     (case map_of event ''chunk'' of
        None \<Rightarrow> None
      | Some chunk \<Rightarrow>
          if chunk = [] then None
          else
            (case loads_chunk loads chunk of
               Inr (JObj kvs) \<Rightarrow>
                 (case map_of kvs ''delta'' of
                    Some d \<Rightarrow> if truthy d then Some d else None
                  | None \<Rightarrow> None)
             | _ \<Rightarrow> None))"

text \<open>
  The \<^verbatim>\<open>"text"\<close> field of a delta object, when it has one. A field that is JSON
  \<open>null\<close> reads as \<open>None\<close> in Python, as a missing one does.
\<close>

definition text_field :: "json \<Rightarrow> string option" where
  "text_field d =
     (case d of
        JObj kvs \<Rightarrow> (case map_of kvs ''text'' of Some (JStr t) \<Rightarrow> Some t | _ \<Rightarrow> None)
      | _ \<Rightarrow> None)"

text \<open>
  The concatenation, in stream order, of the text fields of the deltas, up to the first
  delta whose text field is absent or empty.
\<close>

definition claimed_output :: "(bytes \<Rightarrow> exn + json) \<Rightarrow> event list \<Rightarrow> string" where
  "claimed_output loads evs =
     concat (map (\<lambda>d. case text_field d of Some t \<Rightarrow> t | None \<Rightarrow> [])
       (takeWhile (\<lambda>d. text_field d \<noteq> None \<and> text_field d \<noteq> Some [])
          (List.map_filter (delta_of loads) evs)))"

text \<open>
  A response event as the streaming API types it: the payload of a non-empty chunk
  parses to an object; a truthy \<^verbatim>\<open>"delta"\<close> is an object; a \<^verbatim>\<open>"text"\<close> in it is a
  string.
\<close>

definition typed_delta :: "json \<Rightarrow> bool" where
  "typed_delta d =
     (case d of
        JObj kvs \<Rightarrow> (case map_of kvs ''text'' of None \<Rightarrow> True | Some (JStr t) \<Rightarrow> True | Some _ \<Rightarrow> False)
      | _ \<Rightarrow> False)"

definition typed_event :: "(bytes \<Rightarrow> exn + json) \<Rightarrow> event \<Rightarrow> bool" where
  "typed_event loads event =
     (case map_of event ''chunk'' of
        None \<Rightarrow> True
      | Some chunk \<Rightarrow>
          if chunk = [] then True
          else
            (case loads_chunk loads chunk of
               Inr (JObj kvs) \<Rightarrow>
                 (case map_of kvs ''delta'' of
                    None \<Rightarrow> True
                  | Some d \<Rightarrow> if truthy d then typed_delta d else True)
             | _ \<Rightarrow> False))"

section \<open>The prompt of the multimodal OCR call (notebook 01)\<close>

text \<open>
  \<^verbatim>\<open>messages_content\<close> is the list comprehension over \<^verbatim>\<open>images\<close> with the text
  entry appended; \<^verbatim>\<open>messages\<close> wraps it in the one user message.
\<close>

definition messages_content :: "string list \<Rightarrow> string \<Rightarrow> json list" where
  "messages_content images prompt =
     [JObj [(''type'', JStr ''image''),
            (''source'', JObj [(''type'', JStr ''base64''),
                               (''media_type'', JStr ''image/jpeg''),
                               (''data'', JStr image_str)])].
        image_str \<leftarrow> images]
     @ [JObj [(''type'', JStr ''text''), (''text'', JStr prompt)]]"

definition messages :: "string list \<Rightarrow> string \<Rightarrow> json list" where
  "messages images prompt =
     [JObj [(''role'', JStr ''user''), (''content'', JArr (messages_content images prompt))]]"

section \<open>Pages of a PDF as base64 strings (notebook 01)\<close>

text \<open>\<^verbatim>\<open>base64.b64encode\<close>, after RFC 4648: three bytes become four characters.\<close>

definition b64_alphabet :: string where
  "b64_alphabet = ''ABCDEFGHIJKLMNOPQRSTUVWXYZabcdefghijklmnopqrstuvwxyz0123456789+/''"

definition b64_char :: "nat \<Rightarrow> char" where
  "b64_char n = b64_alphabet ! n"

fun b64encode :: "bytes \<Rightarrow> bytes" where
  "b64encode [] = []"
| "b64encode [a] =
     [b64_char (of_char a div 4), b64_char (of_char a mod 4 * 16), CHR ''='', CHR ''='']"
| "b64encode [a, b] =
     [b64_char (of_char a div 4), b64_char (of_char a mod 4 * 16 + of_char b div 16),
      b64_char (of_char b mod 16 * 4), CHR ''='']"
| "b64encode (a # b # c # rest) =
     [b64_char (of_char a div 4), b64_char (of_char a mod 4 * 16 + of_char b div 16),
      b64_char (of_char b mod 16 * 4 + of_char c div 64), b64_char (of_char c mod 64)]
     @ b64encode rest"

definition is_ascii :: "char \<Rightarrow> bool" where
  "is_ascii c = ((of_char c :: nat) < 128)"

text \<open>
  An instance of \<^verbatim>\<open>bytes.decode("utf-8")\<close> on 7-bit input, where every byte is the
  character it encodes; other input is beyond this instance.
\<close>

definition decode_ascii :: "bytes \<Rightarrow> exn + string" where
  "decode_ascii bs = (if list_all is_ascii bs then Inr bs else Inl UnicodeDecodeError)"

text \<open>
  The loop of \<^verbatim>\<open>get_base64_encoded_images_from_pdf\<close>: each page image is saved as
  JPEG into a buffer in memory (\<open>save\<close>), the buffer is base64-encoded, and the result
  is decoded to a string (\<open>decode\<close>) and appended.
\<close>

fun encode_pages ::
  "('img \<Rightarrow> exn + bytes) \<Rightarrow> (bytes \<Rightarrow> exn + string) \<Rightarrow> 'img list \<Rightarrow> string list
     \<Rightarrow> exn + string list" where
  "encode_pages save decode [] base64_img_strs = Inr base64_img_strs"
| "encode_pages save decode (page_image # rest) base64_img_strs =
     (case save page_image of
        Inl e \<Rightarrow> Inl e
      | Inr buffered \<Rightarrow>
          (case decode (b64encode buffered) of
             Inl e \<Rightarrow> Inl e
           | Inr base64_string \<Rightarrow>
               encode_pages save decode rest (base64_img_strs @ [base64_string])))"

text \<open>
  \<open>convert_from_path\<close> (of \<^verbatim>\<open>pdf2image\<close>) reads the PDF from the file system and
  returns the page images, or raises. The function returns the world it was given.
\<close>

definition get_base64_encoded_images_from_pdf ::
  "(string \<Rightarrow> filesystem \<Rightarrow> exn + 'img list) \<Rightarrow> ('img \<Rightarrow> exn + bytes)
     \<Rightarrow> (bytes \<Rightarrow> exn + string) \<Rightarrow> string \<Rightarrow> world \<Rightarrow> (exn + string list) \<times> world" where
  "get_base64_encoded_images_from_pdf convert_from_path save decode pdf_file_path w =
     (case convert_from_path pdf_file_path (fs w) of
        Inl e \<Rightarrow> (Inl e, w)
      | Inr images \<Rightarrow> (encode_pages save decode images [], w))"

section \<open>Local files\<close>

text \<open>
  \<^verbatim>\<open>os.path.join(a, b)\<close> and \<^verbatim>\<open>os.path.dirname(p)\<close> on POSIX paths.
\<close>

definition path_join :: "string \<Rightarrow> string \<Rightarrow> string" where
  "path_join a b =
     (if startswith b ''/'' then b
      else if a = [] \<or> endswith a ''/'' then a @ b
      else a @ ''/'' @ b)"

definition dirname :: "string \<Rightarrow> string" where
  "dirname p =
     (let head = rev (dropWhile (\<lambda>c. c \<noteq> CHR ''/'') (rev p))
      in if head \<noteq> [] \<and> head \<noteq> replicate (length head) CHR ''/''
         then rev (dropWhile (\<lambda>c. c = CHR ''/'') (rev head))
         else head)"

text \<open>
  \<^verbatim>\<open>with open(path, "w") as text_file: text_file.write(data)\<close>. Opening fails when
  the path is empty or names a directory, or when its directory does not exist (the
  directories are the names in \<open>dirs\<close>, and the current directory); otherwise the
  file is created or replaced. \<open>map_of (files f)\<close> reads a file.
\<close>

definition open_error :: "string \<Rightarrow> filesystem \<Rightarrow> exn option" where
  "open_error path f =
     (if path = [] then Some FileNotFoundError
      else if path \<in> set (dirs f) \<or> endswith path ''/'' then Some IsADirectoryError
      else if dirname path \<noteq> [] \<and> dirname path \<notin> set (dirs f) then Some FileNotFoundError
      else None)"

definition write_file :: "string \<Rightarrow> string \<Rightarrow> world \<Rightarrow> exn + world" where
  "write_file path data w =
     (case open_error path (fs w) of
        Some e \<Rightarrow> Inl e
      | None \<Rightarrow>
          Inr (w\<lparr>fs := (fs w)\<lparr>files := (path, data) # files (fs w)\<rparr>,
                 trace := trace w @ [WriteFile path data]\<rparr>))"

section \<open>The Textract loop (notebook 01)\<close>

text \<open>
  An entry of the listing's \<^verbatim>\<open>"Contents"\<close>, read with \<^verbatim>\<open>obj["Key"]\<close>, and a
  Textractor document, read with \<^verbatim>\<open>document.get_text(config=...)\<close>.
\<close>

record s3_object =
  Key :: string

datatype document = Document (get_text: string)

text \<open>
  The listing cell: \<^verbatim>\<open>file_objects = response["Contents"]\<close>, then the keys are printed.
  The response of an empty bucket has no \<^verbatim>\<open>"Contents"\<close>.
\<close>

fun print_keys :: "s3_object list \<Rightarrow> world \<Rightarrow> world" where
  "print_keys [] w = w"
| "print_keys (obj # rest) w = print_keys rest (py_print (Key obj) w)"

definition list_cell :: "s3_object list option \<Rightarrow> world \<Rightarrow> (exn + s3_object list) \<times> world" where
  "list_cell contents w =
     (case contents of
        None \<Rightarrow> (Inl (KeyError ''Contents''), w)
      | Some file_objects \<Rightarrow> (Inr file_objects, print_keys file_objects w))"

text \<open>
  One pass of \<^verbatim>\<open>for obj in file_objects:\<close>. The notebook leaves the Textractor call
  to its reader (TASK 1); \<open>task_one\<close> is what stands between the two TASK 1 markers, as a
  function of \<^verbatim>\<open>s3_filename\<close>: it binds \<^verbatim>\<open>document\<close> to a document or to
  \<open>None\<close>, or raises. \<open>None\<close> has no \<^verbatim>\<open>get_text\<close>.
\<close>

definition textract_iteration ::
  "(string \<Rightarrow> exn + document option) \<Rightarrow> string \<Rightarrow> string \<Rightarrow> s3_object \<Rightarrow> world
     \<Rightarrow> exn option \<times> world" where
  "textract_iteration task_one s3_bucket output_path obj w =
     (let w1 = py_print (''Processing '' @ Key obj) w;
          base_filename = Key obj;
          s3_filename = format_s3_uri s3_bucket base_filename;
          output_filename = textract_output_filename base_filename
      in case task_one s3_filename of
           Inl e \<Rightarrow> (Some e, w1)
         | Inr None \<Rightarrow> (Some AttributeError, w1)
         | Inr (Some document) \<Rightarrow>
             (let document_text = get_text document
              in case write_file (path_join output_path output_filename) document_text w1 of
                   Inl e \<Rightarrow> (Some e, w1)
                 | Inr w2 \<Rightarrow> (None, py_print ''---'' w2)))"

fun textract_loop ::
  "(string \<Rightarrow> exn + document option) \<Rightarrow> string \<Rightarrow> string \<Rightarrow> s3_object list \<Rightarrow> world
     \<Rightarrow> exn option \<times> world" where
  "textract_loop task_one s3_bucket output_path [] w = (None, w)"
| "textract_loop task_one s3_bucket output_path (obj # rest) w =
     (case textract_iteration task_one s3_bucket output_path obj w of
        (Some e, w') \<Rightarrow> (Some e, w')
      | (None, w') \<Rightarrow> textract_loop task_one s3_bucket output_path rest w')"

text \<open>The cell as shipped: between the markers stands \<^verbatim>\<open>document = None\<close>.\<close>

definition textract_cell :: "string \<Rightarrow> string \<Rightarrow> s3_object list \<Rightarrow> world \<Rightarrow> exn option \<times> world" where
  "textract_cell = textract_loop (\<lambda>s3_filename. Inr None)"

text \<open>
  The export cell of the Bedrock path,
  \<^verbatim>\<open>with open(os.path.join(output_path, output_filename), "w") as text_file:
  text_file.write(output)\<close>, under the name derived from the key of \<^verbatim>\<open>obj\<close>. The file
  is opened first, which creates or empties it; \<^verbatim>\<open>output\<close> is read only then, so an
  unbound \<^verbatim>\<open>output\<close> leaves an empty file behind.
\<close>

definition export_cell :: "string \<Rightarrow> s3_object \<Rightarrow> world \<Rightarrow> exn option \<times> world" where
  "export_cell output_path obj w =
     (let path = path_join output_path (bedrock_output_filename (Key obj))
      in case write_file path [] w of
           Inl e \<Rightarrow> (Some e, w)
         | Inr w1 \<Rightarrow>
             (case output_var w of
                None \<Rightarrow> (Some (NameError ''output''), w1)
              | Some out \<Rightarrow>
                  (None, w\<lparr>fs := (fs w)\<lparr>files := (path, out) # files (fs w)\<rparr>,
                           trace := trace w @ [WriteFile path out]\<rparr>)))"

subsection \<open>The run of the loop, as the specification words it\<close>

text \<open>The files written among the effects of a run, in the order they were written.\<close>

fun written :: "effect list \<Rightarrow> (string \<times> string) list" where
  "written [] = []"
| "written (WriteFile p d # es) = (p, d) # written es"
| "written (Print s # es) = written es"
| "written (InvokeModel rq # es) = written es"

text \<open>
  One document processed end to end: its key announced, its text written to its output
  file, the closing line printed.
\<close>

definition object_effects ::
  "(string \<Rightarrow> exn + document option) \<Rightarrow> string \<Rightarrow> string \<Rightarrow> s3_object \<Rightarrow> effect list" where
  "object_effects task_one s3_bucket output_path obj =
     (case task_one (format_s3_uri s3_bucket (Key obj)) of
        Inr (Some document) \<Rightarrow>
          [Print (''Processing '' @ Key obj @ newline),
           WriteFile (path_join output_path (textract_output_filename (Key obj))) (get_text document),
           Print (''---'' @ newline)]
      | _ \<Rightarrow> [])"

section \<open>The JSON of the extracted attributes (notebook 02)\<close>

text \<open>
  The TASK 3 cell as shipped: \<^verbatim>\<open>json_file = {}\<close>. The conversion of the text output is
  left to the reader of the notebook.
\<close>

definition task3_cell :: "world \<Rightarrow> world" where
  "task3_cell w = w\<lparr>json_file := Some (JObj [])\<rparr>"

text \<open>
  Modelled from the spec: the naive JSON extraction itself is not in the notebook (it is
  what TASK 3 asks of the reader). The JSON object parsed out of an answer is read by
  \<open>loads\<close> from the text between the first opening and the last closing brace.
\<close>

definition json_blob :: "string \<Rightarrow> string" where
  "json_blob s =
     rev (dropWhile (\<lambda>c. c \<noteq> CHR ''}'') (rev (dropWhile (\<lambda>c. c \<noteq> CHR ''{'') s)))"

definition claimed_json_file :: "(bytes \<Rightarrow> exn + json) \<Rightarrow> world \<Rightarrow> json option" where
  "claimed_json_file loads w =
     (case output_var w of
        None \<Rightarrow> None
      | Some out \<Rightarrow> (case loads (json_blob out) of Inl e \<Rightarrow> None | Inr j \<Rightarrow> Some j))"

section \<open>The data-automation invocation (notebook 03)\<close>

text \<open>
  The variables of the notebook: a name is bound to a value or not bound at all, and
  reading a name that is not bound raises \<open>NameError\<close>. An assignment puts the new
  binding in front; \<open>map_of\<close> reads the newest.
\<close>

datatype pyval =
    Str string
  | Tuple "pyval list"
  | PyList "pyval list"
  | Dict "(string \<times> pyval) list"
  | Object string

type_synonym env = "(string \<times> pyval) list"

definition lookup_name :: "env \<Rightarrow> string \<Rightarrow> exn + pyval" where
  "lookup_name vs name =
     (case map_of vs name of
        None \<Rightarrow> Inl (NameError name)
      | Some v \<Rightarrow> Inr v)"

text \<open>
  A replacement field of an f-string: a string stands for itself; \<open>str\<close> stands for
  Python's \<open>str\<close> on the other values.
\<close>

definition format_value :: "(pyval \<Rightarrow> string) \<Rightarrow> pyval \<Rightarrow> string" where
  "format_value str v = (case v of Str s \<Rightarrow> s | _ \<Rightarrow> str v)"

record automation_request =
  inputConfiguration :: pyval
  outputConfiguration :: pyval
  blueprints :: pyval
  dataAutomationProfileArn :: pyval

record session =
  vars :: env
  sent :: "automation_request list"
  shown :: string

text \<open>
  The call expression \<^verbatim>\<open>bda_runtime_client.invoke_data_automation_async(...)\<close> up to
  the call itself: the client is read, then the keyword arguments are evaluated from left
  to right, each reading the names it mentions.
\<close>

definition call_arguments :: "(pyval \<Rightarrow> string) \<Rightarrow> env \<Rightarrow> exn + automation_request" where
  "call_arguments str vs =
     (case lookup_name vs ''bda_runtime_client'' of
        Inl e \<Rightarrow> Inl e
      | Inr client \<Rightarrow>
     (case client of
        Str s \<Rightarrow> Inl AttributeError
      | Tuple xs \<Rightarrow> Inl AttributeError
      | PyList xs \<Rightarrow> Inl AttributeError
      | Dict kvs \<Rightarrow> Inl AttributeError
      | Object c \<Rightarrow>
     (case lookup_name vs ''s3_bucket'' of
        Inl e \<Rightarrow> Inl e
      | Inr s3_bucket \<Rightarrow>
     (case lookup_name vs ''s3_file_key'' of
        Inl e \<Rightarrow> Inl e
      | Inr s3_file_key \<Rightarrow>
     (case lookup_name vs ''blueprint_arn'' of
        Inl e \<Rightarrow> Inl e
      | Inr blueprint_arn \<Rightarrow>
     (case lookup_name vs ''default_profile_arn'' of
        Inl e \<Rightarrow> Inl e
      | Inr default_profile_arn \<Rightarrow>
          Inr \<lparr>inputConfiguration =
                 Dict [(''s3Uri'', Str (''s3://'' @ format_value str s3_bucket @ ''/''
                                        @ format_value str s3_file_key))],
               outputConfiguration =
                 Dict [(''s3Uri'', Str (''s3://'' @ format_value str s3_bucket @ ''/bda-outputs''))],
               blueprints = PyList [Dict [(''blueprintArn'', blueprint_arn)]],
               dataAutomationProfileArn = default_profile_arn\<rparr>))))))"

text \<open>
  The cell: \<^verbatim>\<open>dataAutomationProfileArn = (f"arn:aws:bedrock:{REGION_ID}:{ACCOUNT_ID}:...",)\<close>
  (the trailing comma makes a one-element tuple), the call, whose answer \<open>bda\<close> gives,
  \<^verbatim>\<open>invocationArn = response["invocationArn"]\<close> and the \<^verbatim>\<open>print\<close>.
\<close>

definition invoke_automation_cell ::
  "(pyval \<Rightarrow> string) \<Rightarrow> (automation_request \<Rightarrow> exn + (string \<times> pyval) list) \<Rightarrow> session
     \<Rightarrow> exn option \<times> session" where
  "invoke_automation_cell str bda s =
     (case lookup_name (vars s) ''REGION_ID'' of
        Inl e \<Rightarrow> (Some e, s)
      | Inr region \<Rightarrow>
     (case lookup_name (vars s) ''ACCOUNT_ID'' of
        Inl e \<Rightarrow> (Some e, s)
      | Inr account \<Rightarrow>
     (let arn = ''arn:aws:bedrock:'' @ format_value str region @ '':'' @ format_value str account
                  @ '':data-automation-profile/us.data-automation-v1'';
          s1 = s\<lparr>vars := (''dataAutomationProfileArn'', Tuple [Str arn]) # vars s\<rparr>
      in case call_arguments str (vars s1) of
           Inl e \<Rightarrow> (Some e, s1)
         | Inr rq \<Rightarrow>
             (let s2 = s1\<lparr>sent := sent s1 @ [rq]\<rparr>
              in case bda rq of
                   Inl e \<Rightarrow> (Some e, s2)
                 | Inr response \<Rightarrow>
                     (let s3 = s2\<lparr>vars := (''response'', Dict response) # vars s2\<rparr>
                      in case map_of response ''invocationArn'' of
                           None \<Rightarrow> (Some (KeyError ''invocationArn''), s3)
                         | Some invocationArn \<Rightarrow>
                             (None,
                              s3\<lparr>vars := (''invocationArn'', invocationArn) # vars s3,
                                 shown := shown s3
                                   @ ''Invoked data automation job with invocation arn ''
                                   @ format_value str invocationArn @ newline\<rparr>))))))"

text \<open>
  The session when the cell is reached: the names the earlier cells of the notebook
  bind, for the account \<open>123456789012\<close>.
\<close>

definition session_before :: session where
  "session_before =
     \<lparr>vars =
        [(''blueprint_arn'', Str ''arn:aws:bedrock:us-west-2:123456789012:blueprint/0123456789ab''),
         (''s3_file_key'', Str ''2302.13971v1.pdf''),
         (''s3_client'', Object ''s3''),
         (''s3_bucket'', Str ''information-extraction-workshop-123456789012''),
         (''output_path'', Str ''processed-files''),
         (''input_path'', Str ''demo-files''),
         (''REGION_ID'', Str ''us-west-2''),
         (''ACCOUNT_ID'', Str ''123456789012''),
         (''bda_runtime_client'', Object ''bedrock-data-automation-runtime''),
         (''bda_client'', Object ''bedrock-data-automation'')],
      sent = [], shown = []\<rparr>"

text \<open>
  A service that accepts every request, and a \<open>str\<close> for the values that are not
  strings (none of them is formatted in the runs below).
\<close>

definition example_service :: "automation_request \<Rightarrow> exn + (string \<times> pyval) list" where
  "example_service rq =
     Inr [(''invocationArn'',
           Str ''arn:aws:bedrock:us-west-2:123456789012:data-automation-invocation/0001'')]"

definition opaque_str :: "pyval \<Rightarrow> string" where
  "opaque_str v = ''<value>''"

section \<open>What a run sent to the model\<close>


section \<open>Concrete inputs\<close>

text \<open>
  A freshly started notebook: nothing printed, no variable bound, the output directory
  created (\<^verbatim>\<open>os.makedirs(output_path, exist_ok=True)\<close>) and empty.
\<close>

definition fresh_world :: world where
  "fresh_world =
     \<lparr>trace = [], fs = \<lparr>dirs = [''processed-files''], files = []\<rparr>,
      output_var = None, output_list = None, json_file = None\<rparr>"

text \<open>
  A response stream shaped like the model's: a message start, two text deltas around an
  event without a chunk, the message delta that ends the answer, and a late text delta.
\<close>

definition example_events :: "event list" where
  \<open>example_events =
     [[(''chunk'', [(''bytes'', ''{"type":"message_start","message":{"role":"assistant"}}'')])],
      [(''chunk'', [(''bytes'',
          ''{"type":"content_block_delta","index":0,"delta":{"type":"text_delta","text":"Hello"}}'')])],
      [],
      [(''chunk'', [(''bytes'',
          ''{"type":"content_block_delta","index":0,"delta":{"type":"text_delta","text":", world"}}'')])],
      [(''chunk'', [(''bytes'',
          ''{"type":"message_delta","delta":{"stop_reason":"end_turn"},"usage":{"output_tokens":3}}'')])],
      [(''chunk'', [(''bytes'',
          ''{"type":"content_block_delta","index":0,"delta":{"type":"text_delta","text":"late"}}'')])]]\<close>

text \<open>
  The two demo documents as the listing returns them, and an answer to TASK 1 that
  yields a document for each of them.
\<close>

definition example_objects :: "s3_object list" where
  "example_objects = [\<lparr>Key = ''2302.13971v1.pdf''\<rparr>, \<lparr>Key = ''2310.06825v1.pdf''\<rparr>]"

definition example_textractor :: "string \<Rightarrow> exn + document option" where
  "example_textractor s3_filename =
     (if s3_filename = ''s3://workshop-bucket/2302.13971v1.pdf''
        then Inr (Some (Document ''# LLaMA''))
      else if s3_filename = ''s3://workshop-bucket/2310.06825v1.pdf''
        then Inr (Some (Document ''# Mistral 7B''))
      else Inl (ClientError ''InvalidS3ObjectException'' ''Unable to get object metadata from S3''))"

text \<open>A notebook whose model has answered with the JSON asked for.\<close>

definition answered_world :: world where
  \<open>answered_world = fresh_world\<lparr>output_var := Some ''<json>{"Title": "Mistral 7B"}</json>''\<rparr>\<close>

section \<open>Facts about the string methods\<close>

lemma endswith_append: "endswith (p @ suf) suf"
  by (simp add: endswith_def)

lemma endswith_iff: "endswith s suf \<longleftrightarrow> (\<exists>p. s = p @ suf)"
proof
  assume "endswith s suf"
  then have "s = take (length s - length suf) s @ suf"
    by (metis append_take_drop_id endswith_def)
  then show "\<exists>p. s = p @ suf" ..
next
  assume "\<exists>p. s = p @ suf"
  then show "endswith s suf"
    by (auto simp: endswith_def)
qed

lemma removesuffix_append: "suf \<noteq> [] \<Longrightarrow> removesuffix (p @ suf) suf = p"
  by (simp add: removesuffix_def endswith_append)

lemma removesuffix_absent: "\<not> endswith s suf \<Longrightarrow> removesuffix s suf = s"
  by (simp add: removesuffix_def)

lemma startswith_append: "startswith (pre @ s) pre"
  by (simp add: startswith_def)

lemma removeprefix_append: "removeprefix (pre @ s) pre = s"
  by (simp add: removeprefix_def startswith_append)

lemma str_find_first:
  "c \<notin> set p \<Longrightarrow> str_find (p @ c # r) [c] = Some (length p)"
  by (induction p) (auto simp: startswith_def)

lemma split_once_first:
  "c \<notin> set p \<Longrightarrow> str_split (p @ c # r) [c] 1 = Inr [p, r]"
  by (simp add: str_split_def str_find_first)

section \<open>Output file names\<close>

lemma output_filename_collision_iff:
  "textract_output_filename (key @ ''.pdf'') = textract_output_filename key
     \<longleftrightarrow> \<not> endswith key ''.pdf''"
proof (cases "endswith key ''.pdf''")
  case True
  then obtain p where key: "key = p @ ''.pdf''"
    by (auto simp: endswith_iff)
  have "removesuffix (key @ ''.pdf'') ''.pdf'' = key"
    by (rule removesuffix_append) simp
  moreover have "removesuffix key ''.pdf'' = p"
    unfolding key by (rule removesuffix_append) simp
  ultimately show ?thesis
    using True by (simp add: textract_output_filename_def key)
next
  case False
  then show ?thesis
    by (simp add: textract_output_filename_def removesuffix_append removesuffix_absent)
qed

text \<open>
  Claim C8. The local output file name is the object key with a trailing \<open>.pdf\<close>
  removed exactly when the key has it, followed by \<open>_textract.txt\<close> (Textract loop) or
  \<open>_bedrock.txt\<close> (Bedrock export). A key that does not end in \<open>.pdf\<close> keeps its full
  name, so such a key and the distinct key obtained by appending \<open>.pdf\<close> to it get the
  same output file name.
\<close>

theorem output_filename_pdf_suffix:
  "textract_output_filename (stem @ ''.pdf'') = stem @ ''_textract.txt''
   \<and> bedrock_output_filename (stem @ ''.pdf'') = stem @ ''_bedrock.txt''
   \<and> (\<not> endswith key ''.pdf'' \<longrightarrow>
          textract_output_filename key = key @ ''_textract.txt''
        \<and> bedrock_output_filename key = key @ ''_bedrock.txt''
        \<and> key \<noteq> key @ ''.pdf''
        \<and> textract_output_filename (key @ ''.pdf'') = textract_output_filename key
        \<and> bedrock_output_filename (key @ ''.pdf'') = bedrock_output_filename key)"
  by (simp add: textract_output_filename_def bedrock_output_filename_def
      removesuffix_append removesuffix_absent)

theorem output_filename_pdf_suffix_witness:
  "\<not> endswith ''paper'' ''.pdf''
   \<and> textract_output_filename ''paper.pdf'' = ''paper_textract.txt''
   \<and> textract_output_filename ''paper'' = ''paper_textract.txt''
   \<and> bedrock_output_filename ''paper.pdf'' = bedrock_output_filename ''paper''"
  using output_filename_pdf_suffix [of "''paper''" "''paper''"]
  by (simp add: endswith_def)

section \<open>S3 URIs\<close>

text \<open>
  Claim C9. Taking an S3 URI apart undoes putting it together: for a bucket name without
  \<open>/\<close> and any key (which may contain \<open>/\<close>, and need not even be non-empty), removing
  the \<open>s3://\<close> prefix of \<open>s3://bucket/key\<close> and splitting at the first \<open>/\<close> gives
  exactly the two parts \<open>[bucket, key]\<close>, which the \<open>get_object\<close> call then reads.
\<close>

theorem s3_uri_roundtrip:
  "CHR ''/'' \<notin> set bucket \<Longrightarrow>
     s3_uri_parts (format_s3_uri bucket key) = Inr [bucket, key]
   \<and> get_object_args (format_s3_uri bucket key) = Inr (bucket, key)"
proof -
  assume b: "CHR ''/'' \<notin> set bucket"
  have "removeprefix (format_s3_uri bucket key) ''s3://'' = bucket @ CHR ''/'' # key"
    unfolding format_s3_uri_def by (simp only: removeprefix_append) simp
  then have parts: "s3_uri_parts (format_s3_uri bucket key) = Inr [bucket, key]"
    using split_once_first [OF b, of key] by (simp add: s3_uri_parts_def)
  then show ?thesis
    by (simp add: get_object_args_def index_def)
qed

theorem s3_uri_roundtrip_witness:
  "CHR ''/'' \<notin> set ''my-bucket''
   \<and> s3_uri_parts ''s3://my-bucket/bda-outputs/job/metadata.json''
       = Inr [''my-bucket'', ''bda-outputs/job/metadata.json'']
   \<and> get_object_args ''s3://my-bucket/bda-outputs/job/metadata.json''
       = Inr (''my-bucket'', ''bda-outputs/job/metadata.json'')"
  using s3_uri_roundtrip [of "''my-bucket''" "''bda-outputs/job/metadata.json''"]
  by (simp add: format_s3_uri_def)

section \<open>Streamed-response accumulation\<close>

lemma delta_of_SomeD:
  assumes "delta_of loads ev = Some d"
  shows "\<exists>chunk kvs. map_of ev ''chunk'' = Some chunk \<and> chunk \<noteq> []
           \<and> loads_chunk loads chunk = Inr (JObj kvs)
           \<and> map_of kvs ''delta'' = Some d \<and> truthy d"
  using assms unfolding delta_of_def
  by (simp split: option.splits if_splits sum.splits json.splits)

lemma contains_obj: "contains (JObj kvs) k = Inr (map_of kvs k \<noteq> None)"
  by (simp add: map_of_eq_None_iff)

lemma on_event_delta_Some:
  assumes "delta_of loads ev = Some d"
  shows "on_event loads ev w =
     (case dict_get d ''text'' of
        Inl e \<Rightarrow> Inl e
      | Inr t \<Rightarrow>
          (case (if t \<noteq> JNull then append_text t w else Inr w) of
             Inl e \<Rightarrow> Inl e
           | Inr w' \<Rightarrow> Inr (if \<not> truthy t then Break else Continue, w')))"
proof -
  from delta_of_SomeD [OF assms] obtain chunk kvs where
    "map_of ev ''chunk'' = Some chunk" "chunk \<noteq> []"
    "loads_chunk loads chunk = Inr (JObj kvs)"
    "map_of kvs ''delta'' = Some d" "truthy d"
    by blast
  then show ?thesis
    by (simp add: on_event_def contains_obj del: contains.simps)
qed

lemma on_event_delta_None:
  assumes "delta_of loads ev = None" and "on_event loads ev w = Inr (st, w')"
  shows "st = Continue \<and> w' = w"
proof (cases "map_of ev ''chunk''")
  case None
  with assms(2) show ?thesis by (simp add: on_event_def)
next
  case (Some chunk)
  show ?thesis
  proof (cases "chunk = []")
    case True
    with Some assms(2) show ?thesis by (simp add: on_event_def)
  next
    case ne: False
    show ?thesis
    proof (cases "loads_chunk loads chunk")
      case (Inl e)
      with Some ne assms(2) show ?thesis by (simp add: on_event_def)
    next
      case (Inr chunk_obj)
      note base = Some ne Inr
      show ?thesis
      proof (cases chunk_obj)
        case (JObj kvs)
        show ?thesis
        proof (cases "map_of kvs ''delta''")
          case None
          with base JObj assms(2) show ?thesis
            by (simp add: on_event_def contains_obj del: contains.simps)
        next
          case (Some d)
          with base JObj assms(1) have "\<not> truthy d"
            by (simp add: delta_of_def split: if_splits)
          with base JObj Some assms(2) show ?thesis
            by (simp add: on_event_def contains_obj del: contains.simps)
        qed
      next
        case (JArr xs)
        with base assms(2) show ?thesis
          by (simp add: on_event_def split: if_splits)
      next
        case (JStr s)
        with base assms(2) show ?thesis
          by (simp add: on_event_def split: if_splits)
      qed (use base assms(2) in \<open>simp_all add: on_event_def\<close>)
    qed
  qed
qed


lemma on_event_Some_result:
  assumes d: "delta_of loads ev = Some d" and out: "output_var w = Some out"
    and ev: "on_event loads ev w = Inr (st, w')"
  shows "(text_field d = None \<and> st = Break \<and> w' = w)
       \<or> (\<exists>s. text_field d = Some s \<and> output_var w' = Some (out @ s)
              \<and> st = (if s = [] then Break else Continue))"
proof -
  note eq = ev [unfolded on_event_delta_Some [OF d]]
  show ?thesis
  proof (cases d)
    case (JObj dkvs)
    show ?thesis
    proof (cases "map_of dkvs ''text''")
      case None
      with eq JObj show ?thesis by (simp add: text_field_def)
    next
      case (Some v)
      with eq JObj out show ?thesis
        by (cases v) (auto simp: text_field_def append_text_def py_print_end_def)
    qed
  qed (use eq in simp_all)
qed

lemma claimed_output_Nil: "claimed_output loads [] = []"
  by (simp add: claimed_output_def map_filter_simps)

lemma claimed_output_skip:
  "delta_of loads ev = None \<Longrightarrow> claimed_output loads (ev # rest) = claimed_output loads rest"
  by (simp add: claimed_output_def map_filter_simps)

lemma claimed_output_stop:
  "delta_of loads ev = Some d \<Longrightarrow> text_field d = None \<or> text_field d = Some [] \<Longrightarrow>
     claimed_output loads (ev # rest) = []"
  by (auto simp: claimed_output_def map_filter_simps)

lemma claimed_output_step:
  "delta_of loads ev = Some d \<Longrightarrow> text_field d = Some s \<Longrightarrow> s \<noteq> [] \<Longrightarrow>
     claimed_output loads (ev # rest) = s @ claimed_output loads rest"
  by (simp add: claimed_output_def map_filter_simps)

lemma stream_loop_output:
  "output_var w = Some out \<Longrightarrow> stream_loop loads evs fail w = (None, w') \<Longrightarrow>
     output_var w' = Some (out @ claimed_output loads evs)"
proof (induction evs arbitrary: w out)
  case Nil
  then show ?case by (simp add: claimed_output_Nil)
next
  case (Cons ev rest)
  from Cons.prems(2) obtain st w1 where ev: "on_event loads ev w = Inr (st, w1)"
    by (cases "on_event loads ev w") auto
  show ?case
  proof (cases "delta_of loads ev")
    case None
    from on_event_delta_None [OF None ev] have "st = Continue" "w1 = w" by simp_all
    with Cons.prems ev have "stream_loop loads rest fail w = (None, w')" by simp
    from Cons.IH [OF Cons.prems(1) this] show ?thesis
      by (simp add: claimed_output_skip [OF None])
  next
    case (Some d)
    from on_event_Some_result [OF Some Cons.prems(1) ev]
    show ?thesis
    proof (elim disjE conjE exE)
      assume absent: "text_field d = None" "st = Break" "w1 = w"
      with Cons.prems ev have "w' = w" by simp
      with Cons.prems(1) absent show ?thesis
        by (simp add: claimed_output_stop [OF Some])
    next
      fix s
      assume str: "text_field d = Some s" "output_var w1 = Some (out @ s)"
        "st = (if s = [] then Break else Continue)"
      show ?thesis
      proof (cases "s = []")
        case True
        with str Cons.prems ev have "w' = w1" by simp
        with str True show ?thesis
          by (simp add: claimed_output_stop [OF Some])
      next
        case False
        with str Cons.prems ev have "stream_loop loads rest fail w1 = (None, w')" by simp
        from Cons.IH [OF str(2) this] show ?thesis
          by (simp add: claimed_output_step [OF Some str(1) False])
      qed
    qed
  qed
qed

lemma typed_deltaD:
  assumes "typed_delta d"
  shows "\<exists>dkvs. d = JObj dkvs
           \<and> (map_of dkvs ''text'' = None \<or> (\<exists>s. map_of dkvs ''text'' = Some (JStr s)))"
proof (cases d)
  case (JObj dkvs)
  show ?thesis
  proof (cases "map_of dkvs ''text''")
    case None
    with JObj show ?thesis by simp
  next
    case (Some v)
    with JObj assms show ?thesis
      by (cases v) (simp_all add: typed_delta_def)
  qed
qed (use assms in \<open>simp_all add: typed_delta_def\<close>)

lemma typed_on_event:
  assumes ty: "typed_event loads ev" and out: "output_var w = Some out"
  shows "\<exists>st w' out'. on_event loads ev w = Inr (st, w') \<and> output_var w' = Some out'"
proof (cases "delta_of loads ev")
  case (Some d)
  from delta_of_SomeD [OF Some] ty have "typed_delta d"
    by (auto simp: typed_event_def)
  from typed_deltaD [OF this] obtain dkvs where d: "d = JObj dkvs"
    and t: "map_of dkvs ''text'' = None \<or> (\<exists>s. map_of dkvs ''text'' = Some (JStr s))"
    by blast
  from t show ?thesis
  proof
    assume "map_of dkvs ''text'' = None"
    with d out show ?thesis
      by (simp add: on_event_delta_Some [OF Some])
  next
    assume "\<exists>s. map_of dkvs ''text'' = Some (JStr s)"
    with d out show ?thesis
      by (auto simp: on_event_delta_Some [OF Some] append_text_def py_print_end_def)
  qed
next
  case None
  show ?thesis
  proof (cases "map_of ev ''chunk''")
    case nochunk: None
    with out show ?thesis by (simp add: on_event_def)
  next
    case (Some chunk)
    show ?thesis
    proof (cases "chunk = []")
      case True
      with Some out show ?thesis by (simp add: on_event_def)
    next
      case False
      with Some ty obtain kvs where ld: "loads_chunk loads chunk = Inr (JObj kvs)"
        by (auto simp: typed_event_def split: sum.splits json.splits)
      show ?thesis
      proof (cases "map_of kvs ''delta''")
        case nodelta: None
        with Some False ld out show ?thesis
          by (simp add: on_event_def contains_obj del: contains.simps)
      next
        case d: (Some d)
        with Some False ld None have "\<not> truthy d"
          by (simp add: delta_of_def split: if_splits)
        with Some False ld d out show ?thesis
          by (simp add: on_event_def contains_obj del: contains.simps)
      qed
    qed
  qed
qed

lemma stream_loop_typed:
  "output_var w = Some out \<Longrightarrow> list_all (typed_event loads) evs \<Longrightarrow>
     fst (stream_loop loads evs None w) = None"
proof (induction evs arbitrary: w out)
  case Nil
  then show ?case by simp
next
  case (Cons ev rest)
  from Cons.prems have ty: "typed_event loads ev" and rest: "list_all (typed_event loads) rest"
    by simp_all
  from typed_on_event [OF ty Cons.prems(1)] obtain st w1 out1 where
    ev: "on_event loads ev w = Inr (st, w1)" and out1: "output_var w1 = Some out1"
    by blast
  show ?case
  proof (cases st)
    case Continue
    with ev Cons.IH [OF out1 rest] show ?thesis by simp
  next
    case Break
    with ev show ?thesis by simp
  qed
qed

text \<open>
  Claim C1. For every sequence of streamed response events, the accumulated output is the
  concatenation, in stream order, of the text fields of the delta objects of the events
  that carry a non-empty chunk, taken up to the first delta whose text field is absent or
  empty; events without a chunk and chunks without a truthy delta contribute nothing and
  do not stop the accumulation. The loop does not raise on events typed as the streaming
  API types them, and whenever it does not raise the accumulated output is the claimed one.
\<close>

theorem accumulate_concatenates_delta_texts:
  "(list_all (typed_event loads) evs \<longrightarrow>
      fst (accumulate loads (Response (Some (Stream evs None))) w) = None)
   \<and> (fst (accumulate loads (Response (Some (Stream evs fail))) w) = None \<longrightarrow>
        output_var (snd (accumulate loads (Response (Some (Stream evs fail))) w))
          = Some (claimed_output loads evs))"
proof (intro conjI impI)
  assume "list_all (typed_event loads) evs"
  then show "fst (accumulate loads (Response (Some (Stream evs None))) w) = None"
    by (simp add: accumulate_def stream_loop_typed [where out = "[]"])
next
  let ?w1 = "w\<lparr>output_var := Some []\<rparr>"
  assume "fst (accumulate loads (Response (Some (Stream evs fail))) w) = None"
  then obtain w' where run: "stream_loop loads evs fail ?w1 = (None, w')"
    by (cases "stream_loop loads evs fail ?w1") (simp add: accumulate_def)
  have "output_var ?w1 = Some []" by simp
  from stream_loop_output [OF this run] run
  show "output_var (snd (accumulate loads (Response (Some (Stream evs fail))) w))
          = Some (claimed_output loads evs)"
    by (simp add: accumulate_def)
qed

lemma example_events_typed: "list_all (typed_event json_loads) example_events"
  by code_simp

lemma example_events_claimed: "claimed_output json_loads example_events = ''Hello, world''"
  by code_simp

theorem accumulate_concatenates_delta_texts_witness:
  "list_all (typed_event json_loads) example_events
   \<and> fst (accumulate json_loads (Response (Some (Stream example_events None))) fresh_world) = None
   \<and> output_var (snd (accumulate json_loads (Response (Some (Stream example_events None))) fresh_world))
       = Some ''Hello, world''"
  using accumulate_concatenates_delta_texts
    [where loads = json_loads and evs = example_events and fail = None and w = fresh_world]
    example_events_typed example_events_claimed
  by simp

section \<open>The error path of the model invocation\<close>
























section \<open>Pages of a PDF as base64 strings\<close>

lemma of_char_less_256: "(of_char c :: nat) < 256"
proof -
  have "(of_char c :: nat) mod 256 < 256" by simp
  then show ?thesis by (simp only: of_char_mod_256)
qed

lemma b64_alphabet_ascii: "list_all is_ascii b64_alphabet"
  by (simp add: b64_alphabet_def is_ascii_def)

lemma b64_char_ascii: "n < 64 \<Longrightarrow> is_ascii (b64_char n)"
proof -
  assume "n < 64"
  then have "b64_alphabet ! n \<in> set b64_alphabet"
    by (intro nth_mem) (simp add: b64_alphabet_def)
  with b64_alphabet_ascii show ?thesis
    by (simp add: b64_char_def list_all_iff)
qed

lemma sextets:
  fixes a b c :: nat
  assumes "a < 256" "b < 256" "c < 256"
  shows "a div 4 < 64" "a mod 4 * 16 < 64" "a mod 4 * 16 + b div 16 < 64"
    "b mod 16 * 4 < 64" "b mod 16 * 4 + c div 64 < 64" "c mod 64 < 64"
  using assms by simp_all

lemma b64encode_ascii: "list_all is_ascii (b64encode bs)"
proof (induction bs rule: b64encode.induct)
  case 1
  show ?case by simp
next
  case (2 a)
  show ?case
    using sextets [OF of_char_less_256 [of a] of_char_less_256 [of a] of_char_less_256 [of a]]
    by (simp add: b64_char_ascii) (simp add: is_ascii_def)
next
  case (3 a b)
  show ?case
    using sextets [OF of_char_less_256 [of a] of_char_less_256 [of b] of_char_less_256 [of b]]
    by (simp add: b64_char_ascii) (simp add: is_ascii_def)
next
  case (4 a b c rest)
  then show ?case
    using sextets [OF of_char_less_256 [of a] of_char_less_256 [of b] of_char_less_256 [of c]]
    by (simp add: b64_char_ascii)
qed

lemma b64encode_length: "length (b64encode bs) = 4 * ((length bs + 2) div 3)"
proof (induction bs rule: b64encode.induct)
  case (4 a b c rest)
  have "(length rest + 5) div 3 = Suc ((length rest + 2) div 3)" by arith
  with 4 show ?case by (simp add: add.commute)
qed simp_all

lemma encode_pages_map:
  assumes dec: "\<And>bs. list_all is_ascii bs \<Longrightarrow> decode bs = Inr bs"
  shows "map save pages = map Inr jpegs \<Longrightarrow>
     encode_pages save decode pages acc = Inr (acc @ map b64encode jpegs)"
proof (induction pages arbitrary: acc jpegs)
  case Nil
  then show ?case by simp
next
  case (Cons p pages)
  then obtain j js where jpegs: "jpegs = j # js" and p: "save p = Inr j"
    and rest: "map save pages = map Inr js"
    by (cases jpegs) auto
  from dec [OF b64encode_ascii] have "decode (b64encode j) = Inr (b64encode j)" .
  with p Cons.IH [OF rest] jpegs show ?case by simp
qed

text \<open>
  Claim C6. For a PDF that converts to \<open>n\<close> page images, each of which saves as
  JPEG, \<^verbatim>\<open>get_base64_encoded_images_from_pdf\<close> returns exactly \<open>n\<close> strings in page
  order; the i-th is the UTF-8 decoding of the base64 encoding of the JPEG bytes of page
  i (the encoding is 7-bit, so the decoding cannot fail and yields the same characters).
  The function leaves the world as it found it: no file is written and the PDF is not
  changed.
\<close>

theorem pdf_pages_as_base64_strings:
  assumes "convert_from_path pdf_file_path (fs w) = Inr pages"
    and "map save pages = map Inr jpegs"
    and "\<forall>bs. list_all is_ascii bs \<longrightarrow> decode bs = Inr bs"
  shows "get_base64_encoded_images_from_pdf convert_from_path save decode pdf_file_path w
           = (Inr (map b64encode jpegs), w)
       \<and> length (map b64encode jpegs) = length pages
       \<and> map (\<lambda>page. case save page of Inl e \<Rightarrow> Inl e | Inr buffered \<Rightarrow> decode (b64encode buffered)) pages
           = map Inr (map b64encode jpegs)"
proof -
  from assms(3) have dec: "\<And>bs. list_all is_ascii bs \<Longrightarrow> decode bs = Inr bs" by blast
  have len: "length jpegs = length pages"
    using assms(2) by (metis length_map)
  have each: "map (\<lambda>page. case save page of Inl e \<Rightarrow> Inl e | Inr buffered \<Rightarrow> decode (b64encode buffered)) pages
           = map Inr (map b64encode jpegs)"
    using assms(2)
  proof (induction pages arbitrary: jpegs)
    case Nil
    then show ?case by simp
  next
    case (Cons p pages)
    then obtain j js where "jpegs = j # js" "save p = Inr j" "map save pages = map Inr js"
      by (cases jpegs) auto
    with Cons.IH [of js] dec [OF b64encode_ascii, of j] show ?case by simp
  qed
  from encode_pages_map [of decode save pages jpegs "[]", OF dec assms(2)] assms(1) len each
  show ?thesis
    by (simp add: get_base64_encoded_images_from_pdf_def)
qed


lemma three_pages_encoded: "map b64encode [''Man'', ''Ma'', ''M''] = [''TWFu'', ''TWE='', ''TQ=='']"
  by code_simp

theorem pdf_pages_as_base64_strings_witness:
  "get_base64_encoded_images_from_pdf
     (\<lambda>path f. if path = ''demo-files/2310.06825v1.pdf'' then Inr [''Man'', ''Ma'', ''M'']
                else Inl FileNotFoundError)
     Inr decode_ascii ''demo-files/2310.06825v1.pdf'' fresh_world
   = (Inr [''TWFu'', ''TWE='', ''TQ==''], fresh_world)"
proof -
  have dec: "\<forall>bs. list_all is_ascii bs \<longrightarrow> decode_ascii bs = Inr bs"
    by (simp add: decode_ascii_def)
  have conv: "(\<lambda>path f. if path = ''demo-files/2310.06825v1.pdf''
                 then Inr [''Man'', ''Ma'', ''M''] else Inl FileNotFoundError)
              ''demo-files/2310.06825v1.pdf'' (fs fresh_world) = Inr [''Man'', ''Ma'', ''M'']"
    by simp
  have save: "map Inr [''Man'', ''Ma'', ''M''] = map Inr [''Man'', ''Ma'', ''M'']"
    by simp
  from pdf_pages_as_base64_strings
    [where convert_from_path = "\<lambda>path f. if path = ''demo-files/2310.06825v1.pdf''
                 then Inr [''Man'', ''Ma'', ''M''] else Inl FileNotFoundError"
      and save = Inr and decode = decode_ascii and jpegs = "[''Man'', ''Ma'', ''M'']"
      and pages = "[''Man'', ''Ma'', ''M'']" and w = fresh_world
      and pdf_file_path = "''demo-files/2310.06825v1.pdf''", OF conv save dec]
    three_pages_encoded
  show ?thesis by simp
qed

section \<open>The request of the multimodal OCR call\<close>

text \<open>
  Claim C7. The messages list holds exactly one message, of role \<open>user\<close>; its content
  is one base64 JPEG image entry per element of \<open>images\<close>, in the same order,
  followed by exactly one text entry with the prompt as the last element. The request
  body is the serialisation of a dict whose \<open>max_tokens\<close> is 4096 and whose
  \<open>temperature\<close> is 0.0, and whose \<open>messages\<close> is that list.
\<close>

theorem ocr_request_shape:
  "messages images prompt
     = [JObj [(''role'', JStr ''user''), (''content'', JArr (messages_content images prompt))]]
   \<and> length (messages_content images prompt) = length images + 1
   \<and> (\<forall>i < length images.
         messages_content images prompt ! i
           = JObj [(''type'', JStr ''image''),
                   (''source'', JObj [(''type'', JStr ''base64''),
                                      (''media_type'', JStr ''image/jpeg''),
                                      (''data'', JStr (images ! i))])])
   \<and> messages_content images prompt ! length images
       = JObj [(''type'', JStr ''text''), (''text'', JStr prompt)]
   \<and> last (messages_content images prompt)
       = JObj [(''type'', JStr ''text''), (''text'', JStr prompt)]
   \<and> body (invoke_request dumps (request_dict system_prompt (messages images prompt)))
       = dumps (request_dict system_prompt (messages images prompt))
   \<and> dict_get (request_dict system_prompt (messages images prompt)) ''max_tokens''
       = Inr (JInt 4096)
   \<and> dict_get (request_dict system_prompt (messages images prompt)) ''temperature''
       = Inr (JFloat 0)
   \<and> dict_get (request_dict system_prompt (messages images prompt)) ''messages''
       = Inr (JArr (messages images prompt))"
  by (simp add: messages_def messages_content_def invoke_request_def request_dict_def nth_append)

lemma example_body:
  \<open>json_dumps (request_dict ''Always reply AWS.'' (messages [''TWFu'', ''TWE=''] ''Here is the document.''))
   = ''{"max_tokens": 4096, "system": "Always reply AWS.", "temperature": 0.0, "messages": [{"role": "user", "content": [{"type": "image", "source": {"type": "base64", "media_type": "image/jpeg", "data": "TWFu"}}, {"type": "image", "source": {"type": "base64", "media_type": "image/jpeg", "data": "TWE="}}, {"type": "text", "text": "Here is the document."}]}], "anthropic_version": "bedrock-2023-05-31"}''\<close>
  by code_simp

lemma list_of_three:
  "length xs = Suc (Suc (Suc 0)) \<Longrightarrow> xs = [xs ! 0, xs ! Suc 0, xs ! Suc (Suc 0)]"
  by (auto simp: length_Suc_conv)

theorem ocr_request_shape_witness:
  \<open>messages_content [''TWFu'', ''TWE=''] ''Here is the document.''
     = [JObj [(''type'', JStr ''image''),
              (''source'', JObj [(''type'', JStr ''base64''),
                                 (''media_type'', JStr ''image/jpeg''),
                                 (''data'', JStr ''TWFu'')])],
        JObj [(''type'', JStr ''image''),
              (''source'', JObj [(''type'', JStr ''base64''),
                                 (''media_type'', JStr ''image/jpeg''),
                                 (''data'', JStr ''TWE='')])],
        JObj [(''type'', JStr ''text''), (''text'', JStr ''Here is the document.'')]]
   \<and> body (invoke_request json_dumps
        (request_dict ''Always reply AWS.'' (messages [''TWFu'', ''TWE=''] ''Here is the document.'')))
     = ''{"max_tokens": 4096, "system": "Always reply AWS.", "temperature": 0.0, "messages": [{"role": "user", "content": [{"type": "image", "source": {"type": "base64", "media_type": "image/jpeg", "data": "TWFu"}}, {"type": "image", "source": {"type": "base64", "media_type": "image/jpeg", "data": "TWE="}}, {"type": "text", "text": "Here is the document."}]}], "anthropic_version": "bedrock-2023-05-31"}''\<close>
proof -
  let ?c = "messages_content [''TWFu'', ''TWE=''] ''Here is the document.''"
  note shape = ocr_request_shape [where images = "[''TWFu'', ''TWE='']"
      and prompt = "''Here is the document.''" and dumps = json_dumps
      and system_prompt = "''Always reply AWS.''"]
  from shape have len: "length ?c = Suc (Suc (Suc 0))" by simp
  from shape have "\<forall>i < length [''TWFu'', ''TWE=''].
      ?c ! i = JObj [(''type'', JStr ''image''),
                   (''source'', JObj [(''type'', JStr ''base64''),
                                      (''media_type'', JStr ''image/jpeg''),
                                      (''data'', JStr ([''TWFu'', ''TWE=''] ! i))])]"
    by blast
  then have c0: "?c ! 0 = JObj [(''type'', JStr ''image''),
                   (''source'', JObj [(''type'', JStr ''base64''),
                                      (''media_type'', JStr ''image/jpeg''),
                                      (''data'', JStr ''TWFu'')])]"
    and c1: "?c ! Suc 0 = JObj [(''type'', JStr ''image''),
                   (''source'', JObj [(''type'', JStr ''base64''),
                                      (''media_type'', JStr ''image/jpeg''),
                                      (''data'', JStr ''TWE='')])]"
    by auto
  from shape have c2: "?c ! Suc (Suc 0) = JObj [(''type'', JStr ''text''), (''text'', JStr ''Here is the document.'')]"
    by simp
  from c0 c1 c2 list_of_three [OF len] have content: "?c = [JObj [(''type'', JStr ''image''),
              (''source'', JObj [(''type'', JStr ''base64''),
                                 (''media_type'', JStr ''image/jpeg''),
                                 (''data'', JStr ''TWFu'')])],
        JObj [(''type'', JStr ''image''),
              (''source'', JObj [(''type'', JStr ''base64''),
                                 (''media_type'', JStr ''image/jpeg''),
                                 (''data'', JStr ''TWE='')])],
        JObj [(''type'', JStr ''text''), (''text'', JStr ''Here is the document.'')]]"
    by simp
  from shape have "body (invoke_request json_dumps
        (request_dict ''Always reply AWS.'' (messages [''TWFu'', ''TWE=''] ''Here is the document.'')))
     = json_dumps (request_dict ''Always reply AWS.''
         (messages [''TWFu'', ''TWE=''] ''Here is the document.''))"
    by blast
  then have sent: \<open>body (invoke_request json_dumps
        (request_dict ''Always reply AWS.'' (messages [''TWFu'', ''TWE=''] ''Here is the document.'')))
     = ''{"max_tokens": 4096, "system": "Always reply AWS.", "temperature": 0.0, "messages": [{"role": "user", "content": [{"type": "image", "source": {"type": "base64", "media_type": "image/jpeg", "data": "TWFu"}}, {"type": "image", "source": {"type": "base64", "media_type": "image/jpeg", "data": "TWE="}}, {"type": "text", "text": "Here is the document."}]}], "anthropic_version": "bedrock-2023-05-31"}''\<close>
    by (simp only: example_body)
  from content sent show ?thesis by (rule conjI)
qed

section \<open>The Textract loop\<close>

lemma written_append: "written (es @ es2) = written es @ written es2"
  by (induction es rule: written.induct) simp_all

lemma written_py_print: "written (trace (py_print s w)) = written (trace w)"
  by (simp add: py_print_def written_append)

lemma trace_py_print: "trace (py_print s w) = trace w @ [Print (s @ newline)]"
  by (simp add: py_print_def)

lemma fs_py_print: "fs (py_print s w) = fs w"
  by (simp add: py_print_def)

lemma textract_iteration_document:
  assumes "task_one (format_s3_uri s3_bucket (Key obj)) = Inr (Some d)"
    and "open_error (path_join output_path (textract_output_filename (Key obj))) (fs w) = None"
  shows "textract_iteration task_one s3_bucket output_path obj w
           = (None,
              py_print ''---''
                ((py_print (''Processing '' @ Key obj) w)
                   \<lparr>fs := (fs w)\<lparr>files :=
                            (path_join output_path (textract_output_filename (Key obj)), get_text d)
                              # files (fs w)\<rparr>,
                    trace := trace w @ [Print (''Processing '' @ Key obj @ newline),
                               WriteFile (path_join output_path (textract_output_filename (Key obj)))
                                 (get_text d)]\<rparr>))"
  using assms
  by (simp add: textract_iteration_def Let_def write_file_def fs_py_print trace_py_print)

lemma textract_iteration_placeholder:
  "textract_iteration (\<lambda>s3_filename. Inr None) s3_bucket output_path obj w
     = (Some AttributeError, py_print (''Processing '' @ Key obj) w)"
  by (simp add: textract_iteration_def Let_def)

text \<open>
  Claim C4, as the code has it. The OCR step of one pass of the loop writes the text of
  the document to the corresponding output file without raising when TASK 1 has bound
  \<open>document\<close> to a document object for the listed object and the output file can be
  opened; \<open>get_text\<close> is then evaluated on that object. As shipped, \<open>document\<close> is
  \<open>None\<close>: the pass raises \<open>AttributeError\<close> at \<open>get_text\<close>, after announcing the
  key and before any file is written.
\<close>

theorem textract_step_needs_document:
  "(task_one (format_s3_uri s3_bucket (Key obj)) = Inr (Some d)
      \<and> open_error (path_join output_path (textract_output_filename (Key obj))) (fs w) = None
    \<longrightarrow> fst (textract_iteration task_one s3_bucket output_path obj w) = None
      \<and> map_of (files (fs (snd (textract_iteration task_one s3_bucket output_path obj w))))
            (path_join output_path (textract_output_filename (Key obj)))
          = Some (get_text d)
      \<and> written (trace (snd (textract_iteration task_one s3_bucket output_path obj w)))
          = written (trace w)
            @ [(path_join output_path (textract_output_filename (Key obj)), get_text d)])
   \<and> textract_iteration (\<lambda>s3_filename. Inr None) s3_bucket output_path obj w
       = (Some AttributeError, py_print (''Processing '' @ Key obj) w)
   \<and> written (trace (snd (textract_iteration (\<lambda>s3_filename. Inr None) s3_bucket output_path obj w)))
       = written (trace w)"
proof (intro conjI impI)
  assume a: "task_one (format_s3_uri s3_bucket (Key obj)) = Inr (Some d)
      \<and> open_error (path_join output_path (textract_output_filename (Key obj))) (fs w) = None"
  note run = textract_iteration_document
    [where task_one = task_one and s3_bucket = s3_bucket and obj = obj and d = d
      and output_path = output_path and w = w, OF conjunct1 [OF a] conjunct2 [OF a]]
  show "fst (textract_iteration task_one s3_bucket output_path obj w) = None"
    by (simp add: run)
  show "map_of (files (fs (snd (textract_iteration task_one s3_bucket output_path obj w))))
            (path_join output_path (textract_output_filename (Key obj)))
          = Some (get_text d)"
    by (simp add: run fs_py_print)
  show "written (trace (snd (textract_iteration task_one s3_bucket output_path obj w)))
          = written (trace w)
            @ [(path_join output_path (textract_output_filename (Key obj)), get_text d)]"
    by (simp add: run written_py_print written_append)
qed (simp_all add: textract_iteration_placeholder written_py_print)

theorem textract_raises_counterexample:
  "fst (textract_cell ''workshop-bucket'' ''processed-files'' [\<lparr>Key = ''2310.06825v1.pdf''\<rparr>] fresh_world)
     = Some AttributeError"
  by (simp add: textract_cell_def textract_iteration_def Let_def)

lemma example_step_ready:
  "example_textractor (format_s3_uri ''workshop-bucket'' (Key \<lparr>Key = ''2310.06825v1.pdf''\<rparr>))
     = Inr (Some (Document ''# Mistral 7B''))
   \<and> open_error (path_join ''processed-files''
          (textract_output_filename (Key \<lparr>Key = ''2310.06825v1.pdf''\<rparr>))) (fs fresh_world) = None"
  by code_simp

lemma example_step_path:
  "path_join ''processed-files'' (textract_output_filename ''2310.06825v1.pdf'')
     = ''processed-files/2310.06825v1_textract.txt''"
  by code_simp

theorem textract_step_needs_document_witness:
  "fst (textract_iteration example_textractor ''workshop-bucket'' ''processed-files''
          \<lparr>Key = ''2310.06825v1.pdf''\<rparr> fresh_world) = None
   \<and> map_of (files (fs (snd (textract_iteration example_textractor ''workshop-bucket''
          ''processed-files'' \<lparr>Key = ''2310.06825v1.pdf''\<rparr> fresh_world))))
        ''processed-files/2310.06825v1_textract.txt'' = Some ''# Mistral 7B''
   \<and> textract_iteration (\<lambda>s3_filename. Inr None) ''workshop-bucket'' ''processed-files''
        \<lparr>Key = ''2310.06825v1.pdf''\<rparr> fresh_world
       = (Some AttributeError, py_print ''Processing 2310.06825v1.pdf'' fresh_world)"
  using textract_step_needs_document
    [where task_one = example_textractor and s3_bucket = "''workshop-bucket''"
      and output_path = "''processed-files''" and obj = "\<lparr>Key = ''2310.06825v1.pdf''\<rparr>"
      and w = fresh_world and d = "Document ''# Mistral 7B''"]
    example_step_ready
  by (simp add: example_step_path)

lemma textract_loop_trace:
  "fst (textract_loop task_one s3_bucket output_path objs w) = None \<Longrightarrow>
     trace (snd (textract_loop task_one s3_bucket output_path objs w))
       = trace w @ concat (map (object_effects task_one s3_bucket output_path) objs)"
proof (induction objs arbitrary: w)
  case Nil
  show ?case by simp
next
  case (Cons obj rest)
  obtain r w1 where it: "textract_iteration task_one s3_bucket output_path obj w = (r, w1)"
    by (cases "textract_iteration task_one s3_bucket output_path obj w")
  with Cons.prems have r: "r = None"
    by (cases r) simp_all
  with it Cons.prems have rest: "fst (textract_loop task_one s3_bucket output_path rest w1) = None"
    by simp
  from it r obtain d where d: "task_one (format_s3_uri s3_bucket (Key obj)) = Inr (Some d)"
    and op: "open_error (path_join output_path (textract_output_filename (Key obj))) (fs w) = None"
    by (auto simp: textract_iteration_def Let_def write_file_def fs_py_print
             split: sum.splits option.splits)
  from textract_iteration_document
    [where task_one = task_one and s3_bucket = s3_bucket and obj = obj and d = d
      and output_path = output_path and w = w, OF d op] it
  have "trace w1 = trace w @ object_effects task_one s3_bucket output_path obj"
    by (simp add: object_effects_def d trace_py_print)
  with Cons.IH [OF rest] it r show ?case by simp
qed

lemma textract_loop_written:
  "fst (textract_loop task_one s3_bucket output_path objs w) = None \<Longrightarrow>
     written (trace (snd (textract_loop task_one s3_bucket output_path objs w)))
       = written (trace w)
         @ map (\<lambda>obj. (path_join output_path (textract_output_filename (Key obj)),
                       case task_one (format_s3_uri s3_bucket (Key obj)) of
                         Inr (Some d) \<Rightarrow> get_text d | _ \<Rightarrow> [])) objs"
proof (induction objs arbitrary: w)
  case Nil
  show ?case by simp
next
  case (Cons obj rest)
  obtain r w1 where it: "textract_iteration task_one s3_bucket output_path obj w = (r, w1)"
    by (cases "textract_iteration task_one s3_bucket output_path obj w")
  with Cons.prems have r: "r = None"
    by (cases r) simp_all
  with it Cons.prems have rest: "fst (textract_loop task_one s3_bucket output_path rest w1) = None"
    by simp
  from it r obtain d where d: "task_one (format_s3_uri s3_bucket (Key obj)) = Inr (Some d)"
    and op: "open_error (path_join output_path (textract_output_filename (Key obj))) (fs w) = None"
    by (auto simp: textract_iteration_def Let_def write_file_def fs_py_print
             split: sum.splits option.splits)
  from textract_iteration_document
    [where task_one = task_one and s3_bucket = s3_bucket and obj = obj and d = d
      and output_path = output_path and w = w, OF d op] it
  have "written (trace w1) = written (trace w)
      @ [(path_join output_path (textract_output_filename (Key obj)), get_text d)]"
    by (simp add: written_py_print written_append)
  with Cons.IH [OF rest] it r d show ?case by simp
qed

lemma textract_cell_raises:
  "objs \<noteq> [] \<Longrightarrow>
     textract_cell s3_bucket output_path objs w
       = (Some AttributeError, py_print (''Processing '' @ Key (hd objs)) w)"
  by (cases objs) (simp_all add: textract_cell_def textract_iteration_placeholder)

lemma open_error_dirs: "dirs f = dirs g \<Longrightarrow> open_error p f = open_error p g"
  by (simp add: open_error_def)

lemma textract_loop_total:
  assumes "\<forall>obj \<in> set objs. \<exists>d. task_one (format_s3_uri s3_bucket (Key obj)) = Inr (Some d)"
    and "\<forall>obj \<in> set objs.
           open_error (path_join output_path (textract_output_filename (Key obj))) (fs w) = None"
  shows "fst (textract_loop task_one s3_bucket output_path objs w) = None"
  using assms
proof (induction objs arbitrary: w)
  case Nil
  show ?case by simp
next
  case (Cons obj rest)
  from Cons.prems(1) obtain d where d: "task_one (format_s3_uri s3_bucket (Key obj)) = Inr (Some d)"
    by auto
  from Cons.prems(2)
  have op: "open_error (path_join output_path (textract_output_filename (Key obj))) (fs w) = None"
    by simp
  note step = textract_iteration_document
    [where task_one = task_one and s3_bucket = s3_bucket and obj = obj and d = d
      and output_path = output_path and w = w, OF d op]
  obtain w1 where w1: "textract_iteration task_one s3_bucket output_path obj w = (None, w1)"
    and same: "dirs (fs w1) = dirs (fs w)"
    using step by (simp add: py_print_def)
  have "\<forall>obj \<in> set rest.
           open_error (path_join output_path (textract_output_filename (Key obj))) (fs w1) = None"
    using Cons.prems(2) open_error_dirs [OF same] by simp
  moreover have "\<forall>obj \<in> set rest. \<exists>d. task_one (format_s3_uri s3_bucket (Key obj)) = Inr (Some d)"
    using Cons.prems(1) by simp
  ultimately have "fst (textract_loop task_one s3_bucket output_path rest w1) = None"
    by (rule Cons.IH [rotated])
  with w1 show ?case by simp
qed

text \<open>
  Claim C5, as the code has it. The documents are processed one after the other in the
  order of the listing. If TASK 1 binds a document for every listed object and every
  output file can be opened for writing, the loop runs to its end without raising and
  its effects are, object by object, the announcement, the one write of the object's
  text to its output file and the closing line: the text of object i is written before
  anything of object i+1 begins, and exactly one file is written per listed object. The
  same effects are those of every run that ends without raising. As shipped, with
  \<open>document = None\<close>, a non-empty listing makes the loop raise
  \<open>AttributeError\<close> in its first pass, and no file is written.
\<close>

theorem textract_loop_sequential:
  "((\<forall>obj \<in> set objs. \<exists>d. task_one (format_s3_uri s3_bucket (Key obj)) = Inr (Some d))
      \<and> (\<forall>obj \<in> set objs.
           open_error (path_join output_path (textract_output_filename (Key obj))) (fs w) = None)
    \<longrightarrow> fst (textract_loop task_one s3_bucket output_path objs w) = None
      \<and> trace (snd (textract_loop task_one s3_bucket output_path objs w))
          = trace w @ concat (map (object_effects task_one s3_bucket output_path) objs)
      \<and> written (trace (snd (textract_loop task_one s3_bucket output_path objs w)))
          = written (trace w)
            @ map (\<lambda>obj. (path_join output_path (textract_output_filename (Key obj)),
                          case task_one (format_s3_uri s3_bucket (Key obj)) of
                            Inr (Some d) \<Rightarrow> get_text d | _ \<Rightarrow> [])) objs
      \<and> length (written (trace (snd (textract_loop task_one s3_bucket output_path objs w))))
          = length (written (trace w)) + length objs)
   \<and> (fst (textract_loop task_one s3_bucket output_path objs w) = None \<longrightarrow>
      trace (snd (textract_loop task_one s3_bucket output_path objs w))
        = trace w @ concat (map (object_effects task_one s3_bucket output_path) objs)
    \<and> written (trace (snd (textract_loop task_one s3_bucket output_path objs w)))
        = written (trace w)
          @ map (\<lambda>obj. (path_join output_path (textract_output_filename (Key obj)),
                        case task_one (format_s3_uri s3_bucket (Key obj)) of
                          Inr (Some d) \<Rightarrow> get_text d | _ \<Rightarrow> [])) objs)
   \<and> (objs \<noteq> [] \<longrightarrow>
        textract_cell s3_bucket output_path objs w
          = (Some AttributeError, py_print (''Processing '' @ Key (hd objs)) w)
      \<and> written (trace (snd (textract_cell s3_bucket output_path objs w))) = written (trace w))"
proof -
  have general: "trace (snd (textract_loop task_one s3_bucket output_path objs w))
        = trace w @ concat (map (object_effects task_one s3_bucket output_path) objs)
    \<and> written (trace (snd (textract_loop task_one s3_bucket output_path objs w)))
        = written (trace w)
          @ map (\<lambda>obj. (path_join output_path (textract_output_filename (Key obj)),
                        case task_one (format_s3_uri s3_bucket (Key obj)) of
                          Inr (Some d) \<Rightarrow> get_text d | _ \<Rightarrow> [])) objs"
    if ok: "fst (textract_loop task_one s3_bucket output_path objs w) = None"
    using textract_loop_trace [OF ok] textract_loop_written [OF ok] by (rule conjI)
  have total: "fst (textract_loop task_one s3_bucket output_path objs w) = None"
    if "(\<forall>obj \<in> set objs. \<exists>d. task_one (format_s3_uri s3_bucket (Key obj)) = Inr (Some d))
      \<and> (\<forall>obj \<in> set objs.
           open_error (path_join output_path (textract_output_filename (Key obj))) (fs w) = None)"
    using that textract_loop_total [of objs task_one s3_bucket output_path w] by blast
  have shipped: "textract_cell s3_bucket output_path objs w
          = (Some AttributeError, py_print (''Processing '' @ Key (hd objs)) w)
      \<and> written (trace (snd (textract_cell s3_bucket output_path objs w))) = written (trace w)"
    if "objs \<noteq> []"
    using that by (simp add: textract_cell_raises written_py_print)
  show ?thesis
  proof (intro conjI impI)
    assume input: "(\<forall>obj \<in> set objs. \<exists>d. task_one (format_s3_uri s3_bucket (Key obj)) = Inr (Some d))
      \<and> (\<forall>obj \<in> set objs.
           open_error (path_join output_path (textract_output_filename (Key obj))) (fs w) = None)"
    show ok: "fst (textract_loop task_one s3_bucket output_path objs w) = None"
      by (rule total [OF input])
    show "trace (snd (textract_loop task_one s3_bucket output_path objs w))
          = trace w @ concat (map (object_effects task_one s3_bucket output_path) objs)"
      by (rule general [OF ok, THEN conjunct1])
    show wr: "written (trace (snd (textract_loop task_one s3_bucket output_path objs w)))
          = written (trace w)
            @ map (\<lambda>obj. (path_join output_path (textract_output_filename (Key obj)),
                          case task_one (format_s3_uri s3_bucket (Key obj)) of
                            Inr (Some d) \<Rightarrow> get_text d | _ \<Rightarrow> [])) objs"
      by (rule general [OF ok, THEN conjunct2])
    show "length (written (trace (snd (textract_loop task_one s3_bucket output_path objs w))))
          = length (written (trace w)) + length objs"
      by (simp add: wr)
  next
    assume ok: "fst (textract_loop task_one s3_bucket output_path objs w) = None"
    show "trace (snd (textract_loop task_one s3_bucket output_path objs w))
          = trace w @ concat (map (object_effects task_one s3_bucket output_path) objs)"
      by (rule general [OF ok, THEN conjunct1])
    show "written (trace (snd (textract_loop task_one s3_bucket output_path objs w)))
          = written (trace w)
            @ map (\<lambda>obj. (path_join output_path (textract_output_filename (Key obj)),
                          case task_one (format_s3_uri s3_bucket (Key obj)) of
                            Inr (Some d) \<Rightarrow> get_text d | _ \<Rightarrow> [])) objs"
      by (rule general [OF ok, THEN conjunct2])
  next
    assume ne: "objs \<noteq> []"
    show "textract_cell s3_bucket output_path objs w
          = (Some AttributeError, py_print (''Processing '' @ Key (hd objs)) w)"
      by (rule shipped [OF ne, THEN conjunct1])
    show "written (trace (snd (textract_cell s3_bucket output_path objs w))) = written (trace w)"
      by (rule shipped [OF ne, THEN conjunct2])
  qed
qed

theorem textract_writes_counterexample:
  "length (written (trace (snd (textract_cell ''workshop-bucket'' ''processed-files''
      example_objects fresh_world)))) \<noteq> length example_objects"
  by (simp add: textract_cell_def textract_iteration_def Let_def example_objects_def py_print_def
      fresh_world_def)

lemma example_documents:
  "example_textractor (format_s3_uri ''workshop-bucket'' ''2302.13971v1.pdf'')
     = Inr (Some (Document ''# LLaMA''))"
  "example_textractor (format_s3_uri ''workshop-bucket'' ''2310.06825v1.pdf'')
     = Inr (Some (Document ''# Mistral 7B''))"
  by code_simp+

lemma example_files_open:
  "list_all (\<lambda>obj.
      open_error (path_join ''processed-files'' (textract_output_filename (Key obj)))
        (fs fresh_world) = None) example_objects"
  by code_simp

lemma example_loop_files:
  "map (\<lambda>obj. (path_join ''processed-files'' (textract_output_filename (Key obj)),
               case example_textractor (format_s3_uri ''workshop-bucket'' (Key obj)) of
                 Inr (Some d) \<Rightarrow> get_text d | _ \<Rightarrow> [])) example_objects
   = [(''processed-files/2302.13971v1_textract.txt'', ''# LLaMA''),
      (''processed-files/2310.06825v1_textract.txt'', ''# Mistral 7B'')]"
  by code_simp

theorem textract_loop_sequential_witness:
  "fst (textract_loop example_textractor ''workshop-bucket'' ''processed-files''
      example_objects fresh_world) = None
   \<and> written (trace (snd (textract_loop example_textractor ''workshop-bucket'' ''processed-files''
        example_objects fresh_world)))
       = [(''processed-files/2302.13971v1_textract.txt'', ''# LLaMA''),
          (''processed-files/2310.06825v1_textract.txt'', ''# Mistral 7B'')]
   \<and> example_objects \<noteq> []
   \<and> fst (textract_cell ''workshop-bucket'' ''processed-files'' example_objects fresh_world)
       = Some AttributeError"
proof -
  note seq = textract_loop_sequential
    [where task_one = example_textractor and s3_bucket = "''workshop-bucket''"
      and output_path = "''processed-files''" and objs = example_objects and w = fresh_world]
  have start: "written (trace fresh_world) = []"
    by (simp add: fresh_world_def)
  have ne: "example_objects \<noteq> []"
    by (simp add: example_objects_def)
  have docs: "\<forall>obj \<in> set example_objects.
      \<exists>d. example_textractor (format_s3_uri ''workshop-bucket'' (Key obj)) = Inr (Some d)"
    by (simp add: example_objects_def example_documents)
  have opens: "\<forall>obj \<in> set example_objects.
      open_error (path_join ''processed-files'' (textract_output_filename (Key obj)))
        (fs fresh_world) = None"
    using example_files_open by (simp add: list_all_iff)
  note run = seq [THEN conjunct1, THEN mp, OF conjI [OF docs opens]]
  from run have ok: "fst (textract_loop example_textractor ''workshop-bucket'' ''processed-files''
      example_objects fresh_world) = None"
    by (rule conjunct1)
  from run [THEN conjunct2, THEN conjunct2, THEN conjunct1]
  have files: "written (trace (snd (textract_loop example_textractor ''workshop-bucket''
        ''processed-files'' example_objects fresh_world)))
       = [(''processed-files/2302.13971v1_textract.txt'', ''# LLaMA''),
          (''processed-files/2310.06825v1_textract.txt'', ''# Mistral 7B'')]"
    by (simp only: start example_loop_files append_Nil)
  from seq [THEN conjunct2, THEN conjunct2, THEN mp, OF ne, THEN conjunct1]
  have "fst (textract_cell ''workshop-bucket'' ''processed-files'' example_objects fresh_world)
       = Some AttributeError"
    by simp
  with ok files ne show ?thesis by (intro conjI)
qed

section \<open>The JSON of the extracted attributes\<close>

text \<open>
  Claim C3, as the code has it. In the attribute-extraction notebook as shipped, the
  TASK 3 cell binds \<open>json_file\<close> to the empty JSON object whatever the accumulated
  text is; nothing is parsed out of the text, which stays as it was.
\<close>

theorem task3_json_file_is_empty:
  "json_file (task3_cell w) = Some (JObj [])
   \<and> output_var (task3_cell w) = output_var w
   \<and> trace (task3_cell w) = trace w
   \<and> fs (task3_cell w) = fs w"
  by (simp add: task3_cell_def)

theorem task3_json_file_counterexample:
  \<open>json_file (task3_cell answered_world) = Some (JObj [])
   \<and> claimed_json_file json_loads answered_world = Some (JObj [(''Title'', JStr ''Mistral 7B'')])
   \<and> json_file (task3_cell answered_world) \<noteq> claimed_json_file json_loads answered_world\<close>
  by code_simp

section \<open>The data-automation invocation\<close>

lemma call_arguments_unbound_profile:
  "map_of vs ''default_profile_arn'' = None \<Longrightarrow> \<exists>e. call_arguments str vs = Inl e"
  by (simp add: call_arguments_def lookup_name_def split: option.splits pyval.splits)

lemma invoke_automation_cell_sends_nothing:
  assumes "map_of (vars s) ''default_profile_arn'' = None"
  shows "fst (invoke_automation_cell str bda s) \<noteq> None
       \<and> sent (snd (invoke_automation_cell str bda s)) = sent s"
proof (cases "lookup_name (vars s) ''REGION_ID''")
  case (Inl e)
  then show ?thesis by (simp add: invoke_automation_cell_def)
next
  case region: (Inr region)
  show ?thesis
  proof (cases "lookup_name (vars s) ''ACCOUNT_ID''")
    case (Inl e)
    with region show ?thesis by (simp add: invoke_automation_cell_def)
  next
    case account: (Inr account)
    let ?arn = "''arn:aws:bedrock:'' @ format_value str region @ '':'' @ format_value str account
                  @ '':data-automation-profile/us.data-automation-v1''"
    have "map_of ((''dataAutomationProfileArn'', Tuple [Str ?arn]) # vars s) ''default_profile_arn''
            = None"
      using assms by simp
    from call_arguments_unbound_profile [OF this]
    obtain e where "call_arguments str ((''dataAutomationProfileArn'', Tuple [Str ?arn]) # vars s)
            = Inl e" ..
    with region account show ?thesis
      by (simp add: invoke_automation_cell_def Let_def)
  qed
qed

text \<open>
  Claim C10 against the code. The cell builds the profile ARN from \<open>REGION_ID\<close> and
  \<open>ACCOUNT_ID\<close> and binds it, inside a one-element tuple, to
  \<open>dataAutomationProfileArn\<close>; the call then passes \<open>default_profile_arn\<close>, a name
  that no cell binds. With the names of the earlier cells bound, evaluating the call
  expression raises \<open>NameError\<close> for that name, and no request is sent.
\<close>

theorem profile_arn_name_error:
  assumes "map_of (vars s) ''REGION_ID'' = Some (Str region)"
    and "map_of (vars s) ''ACCOUNT_ID'' = Some (Str account)"
    and "map_of (vars s) ''bda_runtime_client'' = Some (Object client)"
    and "map_of (vars s) ''s3_bucket'' = Some bucket"
    and "map_of (vars s) ''s3_file_key'' = Some file_key"
    and "map_of (vars s) ''blueprint_arn'' = Some blueprint"
    and "map_of (vars s) ''default_profile_arn'' = None"
  shows "invoke_automation_cell str bda s
     = (Some (NameError ''default_profile_arn''),
        s\<lparr>vars := (''dataAutomationProfileArn'',
                    Tuple [Str (''arn:aws:bedrock:'' @ region @ '':'' @ account
                                @ '':data-automation-profile/us.data-automation-v1'')]) # vars s\<rparr>)"
  using assms
  by (simp add: invoke_automation_cell_def call_arguments_def lookup_name_def format_value_def
      Let_def)

theorem profile_arn_name_error_witness:
  "fst (invoke_automation_cell opaque_str example_service session_before)
     = Some (NameError ''default_profile_arn'')
   \<and> sent (snd (invoke_automation_cell opaque_str example_service session_before)) = []
   \<and> map_of (vars (snd (invoke_automation_cell opaque_str example_service session_before)))
         ''dataAutomationProfileArn''
       = Some (Tuple [Str ''arn:aws:bedrock:us-west-2:123456789012:data-automation-profile/us.data-automation-v1''])"
  using profile_arn_name_error [where s = session_before and str = opaque_str
      and bda = example_service
      and region = "''us-west-2''" and account = "''123456789012''"
      and client = "''bedrock-data-automation-runtime''"
      and bucket = "Str ''information-extraction-workshop-123456789012''"
      and file_key = "Str ''2302.13971v1.pdf''"
      and blueprint = "Str ''arn:aws:bedrock:us-west-2:123456789012:blueprint/0123456789ab''"]
  by (simp add: session_before_def)

lemma invoke_automation_cell_with_profile:
  "fst (invoke_automation_cell opaque_str example_service
          (session_before\<lparr>vars := (''default_profile_arn'', Str ''arn:profile'') # vars session_before\<rparr>))
     = None
   \<and> map (\<lambda>rq. dataAutomationProfileArn rq)
        (sent (snd (invoke_automation_cell opaque_str example_service
          (session_before\<lparr>vars := (''default_profile_arn'', Str ''arn:profile'') # vars session_before\<rparr>))))
     = [Str ''arn:profile'']"
  by code_simp

end
